theory Spec2Isabelle
  imports Main
begin

section \<open>Errors\<close>

text \<open>
  A Go \<open>error\<close> value is modelled by its message (\<open>fmt.Errorf\<close>); a run-time panic
  (nil dereference, failed type assertion) is a value of its own, so that every way a
  function can stop is a branch of the model.
\<close>

datatype error = Error string | Panic string

definition errClientNotInitialized :: error where
  "errClientNotInitialized = Error ''docker client not initialized''"

section \<open>The docker package (docker/docker.go)\<close>

subsection \<open>Types of the Docker API that the package builds or reads\<close>

type_synonym Reader = string
type_synonym Context = unit

record ImagePullOptions =
  RegistryAuth :: string

record PortBinding =
  HostIP :: string
  HostPort :: string

record HostConfig =
  PortBindings :: "(string \<times> PortBinding list) list"
  AutoRemove :: bool

record ContainerConfig =
  Hostname :: string
  conf_Image :: string
  Env :: "string list"
  Labels :: "(string \<times> string) list"

record EndpointSettings =
  NetworkID :: string

record NetworkingConfig =
  EndpointsConfig :: "(string \<times> EndpointSettings) list"

record ContainerCreateCreatedBody =
  created_ID :: string
  created_Warnings :: "string list"

record ApiContainer =
  container_ID :: string
  container_Labels :: "(string \<times> string) list"
  container_State :: string

record NetworkCreateOptions =
  Driver :: string
  CheckDuplicate :: bool

record NetworkCreateResponse =
  response_ID :: string
  response_Warning :: string

record NetworkResource =
  net_Name :: string
  net_ID :: string

record ImageRemoveOptions =
  Force :: bool
  PruneChildren :: bool

record ImageDelete =
  Untagged :: string
  Deleted :: string

record ContainerLogsOptions =
  ShowStdout :: bool
  ShowStderr :: bool
  Timestamps :: bool
  Follow :: bool
  Tail :: string

subsection \<open>The client\<close>

text \<open>
  \<open>*client.Client\<close> is the Docker SDK's handle on the daemon. Its methods are the only
  way the package reaches the runtime, so the client is a record of methods over the
  daemon's state \<open>'d\<close>: each takes the request and the daemon, and gives the reply (or
  an error) and the daemon after the request. The module-wide variable \<open>dkrClient\<close> is
  \<open>None\<close> while it is nil.
\<close>

record 'd Client =
  ImagePull :: "string \<Rightarrow> ImagePullOptions \<Rightarrow> 'd \<Rightarrow> (error + Reader) \<times> 'd"
  ContainerCreate :: "ContainerConfig \<Rightarrow> HostConfig \<Rightarrow> NetworkingConfig \<Rightarrow> string \<Rightarrow> 'd
                        \<Rightarrow> (error + ContainerCreateCreatedBody) \<times> 'd"
  ContainerStart :: "string \<Rightarrow> 'd \<Rightarrow> error option \<times> 'd"
  NetworkConnect :: "string \<Rightarrow> string \<Rightarrow> EndpointSettings \<Rightarrow> 'd \<Rightarrow> error option \<times> 'd"
  ContainerStop :: "string \<Rightarrow> nat \<Rightarrow> 'd \<Rightarrow> error option \<times> 'd"
  ContainerRemove :: "string \<Rightarrow> 'd \<Rightarrow> error option \<times> 'd"
  ContainerList :: "'d \<Rightarrow> (error + ApiContainer list) \<times> 'd"
  ContainerStats :: "string \<Rightarrow> bool \<Rightarrow> 'd \<Rightarrow> (error + Reader) \<times> 'd"
  NetworkCreate :: "string \<Rightarrow> NetworkCreateOptions \<Rightarrow> 'd \<Rightarrow> (error + NetworkCreateResponse) \<times> 'd"
  NetworkList :: "'d \<Rightarrow> (error + NetworkResource list) \<times> 'd"
  ImageRemove :: "string \<Rightarrow> ImageRemoveOptions \<Rightarrow> 'd \<Rightarrow> (error + ImageDelete list) \<times> 'd"
  ContainerLogs :: "string \<Rightarrow> ContainerLogsOptions \<Rightarrow> 'd \<Rightarrow> (error + Reader) \<times> 'd"

text \<open>
  \<open>New\<close>: returns the client already held, or asks \<open>client.NewEnvClient\<close> (the first
  argument: what the SDK answers) for one and stores it. The result is the value
  returned together with the new content of \<open>dkrClient\<close>.
\<close>

definition New :: "(error + 'd Client) \<Rightarrow> 'd Client option
    \<Rightarrow> (error + 'd Client) \<times> 'd Client option" where
  "New NewEnvClient dkrClient =
     (case dkrClient of
        Some c \<Rightarrow> (Inr c, dkrClient)
      | None \<Rightarrow>
          (case NewEnvClient of
             Inl err \<Rightarrow> (Inl err, None)
           | Inr client \<Rightarrow> (Inr client, Some client)))"

text \<open>
  Every operation takes \<open>ctx *context.Context\<close> and passes \<open>*ctx\<close> to the client: a nil
  \<open>ctx\<close> panics there, after the check of \<open>dkrClient\<close>.
\<close>

definition errNilContext :: error where
  "errNilContext = Panic ''invalid memory address or nil pointer dereference''"

definition PullImage :: "'d Client option \<Rightarrow> Context option \<Rightarrow> string \<Rightarrow> 'd
    \<Rightarrow> (error + Reader) \<times> 'd" where
  "PullImage dkrClient ctx image' d =
     (case dkrClient of
        None \<Rightarrow> (Inl errClientNotInitialized, d)
      | Some c \<Rightarrow>
          (let options = \<lparr>RegistryAuth = ''''\<rparr> in
           case ctx of
             None \<Rightarrow> (Inl errNilContext, d)
           | Some _ \<Rightarrow> ImagePull c image' options d))"

text \<open>
  \<open>nat.NewPort\<close> belongs to the go-connections library: it is a parameter, giving the
  port key (\<open>"80/tcp"\<close>) or an error for a port that does not parse.
\<close>

definition CreateContainer :: "(string \<Rightarrow> string \<Rightarrow> error + string) \<Rightarrow> 'd Client option
    \<Rightarrow> Context option \<Rightarrow> string \<Rightarrow> string \<Rightarrow> string \<Rightarrow> string \<Rightarrow> string \<Rightarrow> string \<Rightarrow> 'd
    \<Rightarrow> (error + ContainerCreateCreatedBody) \<times> 'd" where
  "CreateContainer NewPort dkrClient ctx image' deploymentName containerName networkID hPort cPort d =
     (case dkrClient of
        None \<Rightarrow> (Inl errClientNotInitialized, d)
      | Some c \<Rightarrow>
          (let hostBinding = \<lparr>HostIP = ''0.0.0.0'', HostPort = hPort\<rparr> in
           case NewPort ''tcp'' cPort of
             Inl err \<Rightarrow> (Inl err, d)
           | Inr containerPort \<Rightarrow>
               (let portBinding = [(containerPort, [hostBinding])];
                    hostConf = \<lparr>PortBindings = portBinding, AutoRemove = False\<rparr>;
                    containerConf = \<lparr>Hostname = ''bsn'',
                                     conf_Image = image',
                                     Env = [''TEST_ENV=pipi''],
                                     Labels = [(''deployment.name'', deploymentName)]\<rparr>;
                    endpointConf = [(''krane'', \<lparr>NetworkID = networkID\<rparr>)];
                    networkConf = \<lparr>EndpointsConfig = endpointConf\<rparr>
                in case ctx of
                     None \<Rightarrow> (Inl errNilContext, d)
                   | Some _ \<Rightarrow>
                       ContainerCreate c containerConf hostConf networkConf containerName d)))"

definition StartContainer :: "'d Client option \<Rightarrow> Context option \<Rightarrow> string \<Rightarrow> 'd
    \<Rightarrow> error option \<times> 'd" where
  "StartContainer dkrClient ctx containerID d =
     (case dkrClient of
        None \<Rightarrow> (Some errClientNotInitialized, d)
      | Some c \<Rightarrow>
          (case ctx of
             None \<Rightarrow> (Some errNilContext, d)
           | Some _ \<Rightarrow> ContainerStart c containerID d))"

definition ConnectContainerToNetwork :: "'d Client option \<Rightarrow> Context option \<Rightarrow> string \<Rightarrow> string
    \<Rightarrow> 'd \<Rightarrow> error option \<times> 'd" where
  "ConnectContainerToNetwork dkrClient ctx networkID containerID d =
     (case dkrClient of
        None \<Rightarrow> (Some errClientNotInitialized, d)
      | Some c \<Rightarrow>
          (let config = \<lparr>NetworkID = networkID\<rparr> in
           case ctx of
             None \<Rightarrow> (Some errNilContext, d)
           | Some _ \<Rightarrow> NetworkConnect c networkID containerID config d))"

definition StopContainer :: "'d Client option \<Rightarrow> Context option \<Rightarrow> string \<Rightarrow> 'd
    \<Rightarrow> error option \<times> 'd" where
  "StopContainer dkrClient ctx containerID d =
     (case dkrClient of
        None \<Rightarrow> (Some errClientNotInitialized, d)
      | Some c \<Rightarrow>
          (let timeout = 60 in
           case ctx of
             None \<Rightarrow> (Some errNilContext, d)
           | Some _ \<Rightarrow> ContainerStop c containerID timeout d))"

definition RemoveContainer :: "'d Client option \<Rightarrow> Context option \<Rightarrow> string \<Rightarrow> 'd
    \<Rightarrow> error option \<times> 'd" where
  "RemoveContainer dkrClient ctx containerID d =
     (case dkrClient of
        None \<Rightarrow> (Some errClientNotInitialized, d)
      | Some c \<Rightarrow>
          (case ctx of
             None \<Rightarrow> (Some errNilContext, d)
           | Some _ \<Rightarrow> ContainerRemove c containerID d))"

definition ListContainers :: "'d Client option \<Rightarrow> Context option \<Rightarrow> 'd
    \<Rightarrow> (error + ApiContainer list) \<times> 'd" where
  "ListContainers dkrClient ctx d =
     (case dkrClient of
        None \<Rightarrow> (Inl errClientNotInitialized, d)
      | Some c \<Rightarrow>
          (case ctx of
             None \<Rightarrow> (Inl errNilContext, d)
           | Some _ \<Rightarrow> ContainerList c d))"

definition GetContainerStatus :: "'d Client option \<Rightarrow> Context option \<Rightarrow> string \<Rightarrow> bool \<Rightarrow> 'd
    \<Rightarrow> (error + Reader) \<times> 'd" where
  "GetContainerStatus dkrClient ctx containerID stream d =
     (case dkrClient of
        None \<Rightarrow> (Inl errClientNotInitialized, d)
      | Some c \<Rightarrow>
          (case ctx of
             None \<Rightarrow> (Inl errNilContext, d)
           | Some _ \<Rightarrow> ContainerStats c containerID stream d))"

text \<open>\<open>fmt.Sprintf("%s/%s:%s", repo, imageName, tag)\<close>, after the default of the tag.\<close>

definition FormatImageSourceURL :: "string \<Rightarrow> string \<Rightarrow> string \<Rightarrow> string" where
  "FormatImageSourceURL repo imageName tag =
     (let tag = (if tag = '''' then ''latest'' else tag)
      in repo @ ''/'' @ imageName @ '':'' @ tag)"

text \<open>
  \<open>GetNetworkByName\<close>: the first network of the daemon's list whose name matches, or
  the zero \<open>NetworkResource\<close> (empty name and ID) when none does.
\<close>

definition zeroNetworkResource :: NetworkResource where
  "zeroNetworkResource = \<lparr>net_Name = '''', net_ID = ''''\<rparr>"

fun firstNamed :: "string \<Rightarrow> NetworkResource list \<Rightarrow> NetworkResource" where
  "firstNamed name [] = zeroNetworkResource"
| "firstNamed name (net # nets) = (if net_Name net = name then net else firstNamed name nets)"

definition GetNetworkByName :: "'d Client option \<Rightarrow> Context option \<Rightarrow> string \<Rightarrow> 'd
    \<Rightarrow> (error + NetworkResource) \<times> 'd" where
  "GetNetworkByName dkrClient ctx name d =
     (case dkrClient of
        None \<Rightarrow> (Inl errClientNotInitialized, d)
      | Some c \<Rightarrow>
          (case ctx of
             None \<Rightarrow> (Inl errNilContext, d)
           | Some _ \<Rightarrow>
               (case NetworkList c d of
                  (Inl err, d') \<Rightarrow> (Inl err, d')
                | (Inr nets, d') \<Rightarrow> (Inr (firstNamed name nets), d'))))"

definition CreateBridgeNetwork :: "'d Client option \<Rightarrow> Context option \<Rightarrow> string \<Rightarrow> 'd
    \<Rightarrow> (error + NetworkCreateResponse) \<times> 'd" where
  "CreateBridgeNetwork dkrClient ctx name d =
     (case dkrClient of
        None \<Rightarrow> (Inl errClientNotInitialized, d)
      | Some c \<Rightarrow>
          (case GetNetworkByName dkrClient ctx name d of
             (Inl err, d') \<Rightarrow> (Inl err, d')
           | (Inr kNet, d') \<Rightarrow>
               if net_ID kNet \<noteq> '''' then
                 (Inr \<lparr>response_ID = net_ID kNet, response_Warning = ''''\<rparr>, d')
               else
                 (let options = \<lparr>Driver = ''bridge'', CheckDuplicate = True\<rparr> in
                  case ctx of
                    None \<Rightarrow> (Inl errNilContext, d')
                  | Some _ \<Rightarrow> NetworkCreate c name options d')))"

definition RemoveImage :: "'d Client option \<Rightarrow> Context option \<Rightarrow> string \<Rightarrow> 'd
    \<Rightarrow> (error + ImageDelete list) \<times> 'd" where
  "RemoveImage dkrClient ctx imageID d =
     (case dkrClient of
        None \<Rightarrow> (Inl errClientNotInitialized, d)
      | Some c \<Rightarrow>
          (let options = \<lparr>Force = False, PruneChildren = False\<rparr> in
           case ctx of
             None \<Rightarrow> (Inl errNilContext, d)
           | Some _ \<Rightarrow> ImageRemove c imageID options d))"

definition ReadContainerLogs :: "'d Client option \<Rightarrow> Context option \<Rightarrow> string \<Rightarrow> 'd
    \<Rightarrow> (error + Reader) \<times> 'd" where
  "ReadContainerLogs dkrClient ctx containerID d =
     (case dkrClient of
        None \<Rightarrow> (Inl errClientNotInitialized, d)
      | Some c \<Rightarrow>
          (let options = \<lparr>ShowStdout = True, ShowStderr = True, Timestamps = True,
                          Follow = True, Tail = ''50''\<rparr> in
           case ctx of
             None \<Rightarrow> (Inl errNilContext, d)
           | Some _ \<Rightarrow> ContainerLogs c containerID options d))"

subsection \<open>Two daemons to run the package against\<close>

text \<open>
  The Docker daemon is outside the repository. \<open>recordingClient\<close> is a client whose
  daemon only keeps the container configurations it is asked to create, in order; it is
  used to read what \<open>CreateContainer\<close> sends.
\<close>

definition recordingClient :: "ContainerConfig list Client" where
  "recordingClient =
     \<lparr>ImagePull = (\<lambda>_ _ d. (Inr [], d)),
      ContainerCreate = (\<lambda>conf _ _ _ d.
         (Inr \<lparr>created_ID = ''c'', created_Warnings = []\<rparr>, d @ [conf])),
      ContainerStart = (\<lambda>_ d. (None, d)),
      NetworkConnect = (\<lambda>_ _ _ d. (None, d)),
      ContainerStop = (\<lambda>_ _ d. (None, d)),
      ContainerRemove = (\<lambda>_ d. (None, d)),
      ContainerList = (\<lambda>d. (Inr [], d)),
      ContainerStats = (\<lambda>_ _ d. (Inr [], d)),
      NetworkCreate = (\<lambda>_ _ d. (Inr \<lparr>response_ID = ''n'', response_Warning = []\<rparr>, d)),
      NetworkList = (\<lambda>d. (Inr [], d)),
      ImageRemove = (\<lambda>_ _ d. (Inr [], d)),
      ContainerLogs = (\<lambda>_ _ d. (Inr [], d))\<rparr>"

text \<open>
  \<open>networkClient\<close> is a client whose daemon is the list of its networks. Listing
  returns them; creating a network appends one under a new, non-empty ID (longer than
  every ID in use), and is refused for a name in use when \<open>CheckDuplicate\<close> is set, as
  the Docker engine does.
\<close>

definition freshNetworkID :: "NetworkResource list \<Rightarrow> string" where
  "freshNetworkID nets = CHR ''n'' # concat (map net_ID nets)"

definition networkCreate :: "string \<Rightarrow> NetworkCreateOptions \<Rightarrow> NetworkResource list
    \<Rightarrow> (error + NetworkCreateResponse) \<times> NetworkResource list" where
  "networkCreate name options nets =
     (if CheckDuplicate options \<and> name \<in> set (map net_Name nets) then
        (Inl (Error (''network with name '' @ name @ '' already exists'')), nets)
      else
        (Inr \<lparr>response_ID = freshNetworkID nets, response_Warning = []\<rparr>,
         nets @ [\<lparr>net_Name = name, net_ID = freshNetworkID nets\<rparr>]))"

definition networkClient :: "NetworkResource list Client" where
  "networkClient =
     \<lparr>ImagePull = (\<lambda>_ _ d. (Inr [], d)),
      ContainerCreate = (\<lambda>_ _ _ _ d.
         (Inr \<lparr>created_ID = ''c'', created_Warnings = []\<rparr>, d)),
      ContainerStart = (\<lambda>_ d. (None, d)),
      NetworkConnect = (\<lambda>_ _ _ d. (None, d)),
      ContainerStop = (\<lambda>_ _ d. (None, d)),
      ContainerRemove = (\<lambda>_ d. (None, d)),
      ContainerList = (\<lambda>d. (Inr [], d)),
      ContainerStats = (\<lambda>_ _ d. (Inr [], d)),
      NetworkCreate = networkCreate,
      NetworkList = (\<lambda>d. (Inr d, d)),
      ImageRemove = (\<lambda>_ _ d. (Inr [], d)),
      ContainerLogs = (\<lambda>_ _ d. (Inr [], d))\<rparr>"

definition networksNamed :: "string \<Rightarrow> NetworkResource list \<Rightarrow> NetworkResource list" where
  "networksNamed name nets = filter (\<lambda>net. net_Name net = name) nets"

definition validIDs :: "NetworkResource list \<Rightarrow> bool" where
  "validIDs nets = list_all (\<lambda>net. net_ID net \<noteq> []) nets"

section \<open>The deployment package (internal/deployment/deployment.go)\<close>

subsection \<open>Data\<close>

datatype DeploymentAction =
    RunDeploymentAction
  | DeleteDeploymentAction
  | StopContainersAction
  | StartContainersAction
  | RestartContainersAction

text \<open>
  \<open>Config\<close> and \<open>KraneContainer\<close> are declared in files that are not among the
  sources. Of the configuration, the fields this code reads; \<open>Scale\<close> is a Go \<open>int\<close>. Of the container, its
  identity (a number here, a string in Go), the deployment its label names, and the
  state the runtime reports for it.
\<close>

record Config =
  Name :: string
  Registry :: string
  Image :: string
  Tag :: string
  Scale :: int

datatype ContainerState = Created | Running | Restarting | Exited | Paused | Dead

record KraneContainer =
  ID :: nat
  Deployment :: string
  State :: ContainerState

subsection \<open>The collaborators: runtime and store\<close>

text \<open>
  Everything the jobs do goes through functions of the repository that are not among
  the sources. Each call is an event; the world keeps the events in order (\<open>trace\<close>), the
  containers of the runtime, the store's deployment configurations and collections, and
  the environment's answers: \<open>fault\<close> says, from the trace up to and including the
  call being made, whether that call fails and with which error; \<open>healthy\<close> says what a
  health probe that does not fail reports.
\<close>

datatype event =
    EvGetDeploymentConfig string
  | EvCreateSecretsCollection string
  | EvCreateJobsCollection string
  | EvDeleteSecretsCollection string
  | EvDeleteJobsCollection string
  | EvDeleteDeploymentConfig string
  | EvGetContainersByDeployment string
  | EvPullImage string string string
  | EvContainerCreate Config
  | EvStart KraneContainer
  | EvStop KraneContainer
  | EvRemove KraneContainer
  | EvRetriableContainerHealthCheck "KraneContainer list" int
  | EvSleep int
  | EvOk KraneContainer

record world =
  trace :: "event list"
  fault :: "event list \<Rightarrow> error option"
  healthy :: "event list \<Rightarrow> bool"
  containers :: "KraneContainer list"
  next_id :: nat
  deployments :: "(string \<times> Config) list"
  collections :: "string list"

definition call :: "event \<Rightarrow> world \<Rightarrow> error option \<times> world" where
  "call e w = (let t = trace w @ [e] in (fault w t, w\<lparr>trace := t\<rparr>))"

text \<open>
  Modelled from the spec: \<open>GetDeploymentConfig\<close> (not among the sources) is the thin store
  wrapper \<open>Load(name)\<close>; an operation on a deployment whose config is absent fails with
  \<open>DeploymentMissing\<close>.
\<close>

definition GetDeploymentConfig :: "string \<Rightarrow> world \<Rightarrow> (error + Config) \<times> world" where
  "GetDeploymentConfig deployment w =
     (case call (EvGetDeploymentConfig deployment) w of
        (Some err, w') \<Rightarrow> (Inl err, w')
      | (None, w') \<Rightarrow>
          (case map_of (deployments w') deployment of
             None \<Rightarrow> (Inl (Error ''DeploymentMissing''), w')
           | Some config \<Rightarrow> (Inr config, w')))"

text \<open>
  Modelled from the spec: \<open>CreateSecretsCollection\<close>, \<open>CreateJobsCollection\<close>,
  \<open>DeleteSecretsCollection\<close>, \<open>DeleteJobsCollection\<close> and \<open>DeleteDeploymentConfig\<close> (not
  among the sources) create and delete the collections \<open>secrets:<name>\<close> and \<open>jobs:<name>\<close>
  and delete the key \<open>name\<close> of the collection \<open>deployments\<close>; create and delete are
  idempotent.
\<close>

definition CreateSecretsCollection :: "string \<Rightarrow> world \<Rightarrow> error option \<times> world" where
  "CreateSecretsCollection deployment w =
     (case call (EvCreateSecretsCollection deployment) w of
        (Some err, w') \<Rightarrow> (Some err, w')
      | (None, w') \<Rightarrow>
          (None, w'\<lparr>collections := List.insert (''secrets:'' @ deployment) (collections w')\<rparr>))"

definition CreateJobsCollection :: "string \<Rightarrow> world \<Rightarrow> error option \<times> world" where
  "CreateJobsCollection deployment w =
     (case call (EvCreateJobsCollection deployment) w of
        (Some err, w') \<Rightarrow> (Some err, w')
      | (None, w') \<Rightarrow>
          (None, w'\<lparr>collections := List.insert (''jobs:'' @ deployment) (collections w')\<rparr>))"

definition DeleteSecretsCollection :: "string \<Rightarrow> world \<Rightarrow> error option \<times> world" where
  "DeleteSecretsCollection deployment w =
     (case call (EvDeleteSecretsCollection deployment) w of
        (Some err, w') \<Rightarrow> (Some err, w')
      | (None, w') \<Rightarrow>
          (None, w'\<lparr>collections := removeAll (''secrets:'' @ deployment) (collections w')\<rparr>))"

definition DeleteJobsCollection :: "string \<Rightarrow> world \<Rightarrow> error option \<times> world" where
  "DeleteJobsCollection deployment w =
     (case call (EvDeleteJobsCollection deployment) w of
        (Some err, w') \<Rightarrow> (Some err, w')
      | (None, w') \<Rightarrow>
          (None, w'\<lparr>collections := removeAll (''jobs:'' @ deployment) (collections w')\<rparr>))"

definition DeleteDeploymentConfig :: "string \<Rightarrow> world \<Rightarrow> error option \<times> world" where
  "DeleteDeploymentConfig deployment w =
     (case call (EvDeleteDeploymentConfig deployment) w of
        (Some err, w') \<Rightarrow> (Some err, w')
      | (None, w') \<Rightarrow>
          (None, w'\<lparr>deployments := filter (\<lambda>kv. fst kv \<noteq> deployment) (deployments w')\<rparr>))"

text \<open>
  Modelled from the spec: \<open>GetContainersByDeployment\<close> (not among the sources) lists the
  runtime's containers whose label \<open>deployment.name\<close> is the deployment.
\<close>

definition GetContainersByDeployment :: "string \<Rightarrow> world
    \<Rightarrow> (error + KraneContainer list) \<times> world" where
  "GetContainersByDeployment deployment w =
     (case call (EvGetContainersByDeployment deployment) w of
        (Some err, w') \<Rightarrow> (Inl err, w')
      | (None, w') \<Rightarrow> (Inr (filter (\<lambda>c. Deployment c = deployment) (containers w')), w'))"

text \<open>
  Modelled from the spec: \<open>docker.GetClient().PullImage(registry, image, tag)\<close> (the
  three-argument method is not among the sources) blocks until the image is present or fails;
  the model keeps no image store, so a pull only is an event.
\<close>

definition GetClient_PullImage :: "string \<Rightarrow> string \<Rightarrow> string \<Rightarrow> world \<Rightarrow> error option \<times> world" where
  "GetClient_PullImage registry image' tag w = call (EvPullImage registry image' tag) w"

text \<open>
  Modelled from the spec: \<open>ContainerCreate(cfg)\<close> (not among the sources; \<open>container.Create\<close> in
  the workflow of package service) creates one container labelled with the
  deployment's name; creation does not start it. The runtime gives it an identity no
  other container has had.
\<close>

definition ContainerCreate' :: "Config \<Rightarrow> world \<Rightarrow> (error + KraneContainer) \<times> world" where
  "ContainerCreate' config w =
     (case call (EvContainerCreate config) w of
        (Some err, w') \<Rightarrow> (Inl err, w')
      | (None, w') \<Rightarrow>
          (let c = \<lparr>ID = next_id w', Deployment = Name config, State = Created\<rparr>
           in (Inr c, w'\<lparr>containers := containers w' @ [c], next_id := Suc (next_id w')\<rparr>)))"

text \<open>
  Modelled from the spec: the methods \<open>Start\<close>, \<open>Stop\<close> and \<open>Remove\<close> of
  \<open>KraneContainer\<close> (not among the sources) start, stop and remove the runtime's container of
  that identity.
\<close>

definition setState :: "nat \<Rightarrow> ContainerState \<Rightarrow> KraneContainer list \<Rightarrow> KraneContainer list" where
  "setState i s cs = map (\<lambda>c. if ID c = i then c\<lparr>State := s\<rparr> else c) cs"

definition Start :: "KraneContainer \<Rightarrow> world \<Rightarrow> error option \<times> world" where
  "Start c w =
     (case call (EvStart c) w of
        (Some err, w') \<Rightarrow> (Some err, w')
      | (None, w') \<Rightarrow> (None, w'\<lparr>containers := setState (ID c) Running (containers w')\<rparr>))"

definition Stop :: "KraneContainer \<Rightarrow> world \<Rightarrow> error option \<times> world" where
  "Stop c w =
     (case call (EvStop c) w of
        (Some err, w') \<Rightarrow> (Some err, w')
      | (None, w') \<Rightarrow> (None, w'\<lparr>containers := setState (ID c) Exited (containers w')\<rparr>))"

definition Remove :: "KraneContainer \<Rightarrow> world \<Rightarrow> error option \<times> world" where
  "Remove c w =
     (case call (EvRemove c) w of
        (Some err, w') \<Rightarrow> (Some err, w')
      | (None, w') \<Rightarrow>
          (None, w'\<lparr>containers := filter (\<lambda>x. ID x \<noteq> ID c) (containers w')\<rparr>))"

text \<open>
  Modelled from the spec: \<open>RetriableContainerHealthCheck(containers, retries)\<close> (not
  among the sources) passes when every container reports healthy within its budget and fails
  otherwise. It changes no container; its verdict is the environment's.
\<close>

definition RetriableContainerHealthCheck :: "KraneContainer list \<Rightarrow> int \<Rightarrow> world
    \<Rightarrow> error option \<times> world" where
  "RetriableContainerHealthCheck cs retries w = call (EvRetriableContainerHealthCheck cs retries) w"

subsection \<open>The loops of the job phases\<close>

text \<open>
  \<open>for i := 0; i < scale; i++ { c, err := ContainerCreate(config); ...; append }\<close>: the
  loop of \<open>Run\<close> and of \<open>RestartContainers\<close> (\<open>scale\<close> is \<open>config.Scale\<close>) and of
  \<open>createContainers\<close> in package service (\<open>scale\<close> is the local constant 1).
\<close>

function createLoop :: "int \<Rightarrow> int \<Rightarrow> Config \<Rightarrow> KraneContainer list \<Rightarrow> world
    \<Rightarrow> (error + KraneContainer list) \<times> world" where
  "createLoop i scale config containersCreated w =
     (if i < scale then
        (case ContainerCreate' config w of
           (Inl err, w') \<Rightarrow> (Inl err, w')
         | (Inr c, w') \<Rightarrow> createLoop (i + 1) scale config (containersCreated @ [c]) w')
      else (Inr containersCreated, w))"
  by pat_completeness auto
termination
  by (relation "measure (\<lambda>(i, scale, config, cs, w). nat (scale - i))") auto

declare createLoop.simps [simp del]

text \<open>\<open>for _, c := range containersCreated { c.Start(); append }\<close>\<close>

fun startLoop :: "KraneContainer list \<Rightarrow> KraneContainer list \<Rightarrow> world
    \<Rightarrow> (error + KraneContainer list) \<times> world" where
  "startLoop [] containersStarted w = (Inr containersStarted, w)"
| "startLoop (c # cs) containersStarted w =
     (case Start c w of
        (Some err, w') \<Rightarrow> (Inl err, w')
      | (None, w') \<Rightarrow> startLoop cs (containersStarted @ [c]) w')"

text \<open>\<open>for _, c := range containers { if err := c.Remove(); err != nil { return err } }\<close>\<close>

fun removeLoop :: "KraneContainer list \<Rightarrow> world \<Rightarrow> error option \<times> world" where
  "removeLoop [] w = (None, w)"
| "removeLoop (c # cs) w =
     (case Remove c w of
        (Some err, w') \<Rightarrow> (Some err, w')
      | (None, w') \<Rightarrow> removeLoop cs w')"

fun startEach :: "KraneContainer list \<Rightarrow> world \<Rightarrow> error option \<times> world" where
  "startEach [] w = (None, w)"
| "startEach (c # cs) w =
     (case Start c w of
        (Some err, w') \<Rightarrow> (Some err, w')
      | (None, w') \<Rightarrow> startEach cs w')"

fun stopEach :: "KraneContainer list \<Rightarrow> world \<Rightarrow> error option \<times> world" where
  "stopEach [] w = (None, w)"
| "stopEach (c # cs) w =
     (case Stop c w of
        (Some err, w') \<Rightarrow> (Some err, w')
      | (None, w') \<Rightarrow> stopEach cs w')"

subsection \<open>Jobs\<close>

text \<open>
  A \<open>job.Job\<close> carries its arguments and three closures, \<open>Setup\<close>, \<open>Run\<close> and
  \<open>Finally\<close>, that cast the arguments back to the action's own struct. The five
  argument structs are the variants of \<open>JobArgs\<close>, and the closures are the functions
  below, chosen by the variant (\<open>jobSetup\<close>, \<open>jobRun\<close>, \<open>jobFinally\<close>). The structs of
  \<open>Run\<close> and \<open>RestartContainers\<close> have the same two fields; the other three hold the
  deployment's name only.
\<close>

record DeployArgs =
  Config :: Config
  ContainersToRemove :: "KraneContainer list"

datatype JobArgs =
    RunDeploymentJobArgs DeployArgs
  | DeleteDeploymentJobArgs string
  | StartContainersJobArgs string
  | StopContainersJobArgs string
  | RestartContainersJobArgs DeployArgs

record Job =
  job_ID :: nat
  job_Deployment :: string
  job_Type :: DeploymentAction
  job_RetryPolicy :: nat
  job_Args :: JobArgs

subsubsection \<open>The closures of Run\<close>

definition Run_Setup :: "DeployArgs \<Rightarrow> world \<Rightarrow> error option \<times> DeployArgs \<times> world" where
  "Run_Setup jobArgs w =
     (let deploymentName = Name (Config jobArgs) in
      case CreateSecretsCollection deploymentName w of
        (Some err, w1) \<Rightarrow> (Some err, jobArgs, w1)
      | (None, w1) \<Rightarrow>
          (case CreateJobsCollection deploymentName w1 of
             (Some err, w2) \<Rightarrow> (Some err, jobArgs, w2)
           | (None, w2) \<Rightarrow>
               (case GetContainersByDeployment deploymentName w2 of
                  (Inl err, w3) \<Rightarrow> (Some err, jobArgs, w3)
                | (Inr cs, w3) \<Rightarrow> (None, jobArgs\<lparr>ContainersToRemove := cs\<rparr>, w3))))"

definition Run_Run :: "DeployArgs \<Rightarrow> world \<Rightarrow> error option \<times> world" where
  "Run_Run jobArgs w =
     (let config = Config jobArgs in
      case GetClient_PullImage (Registry config) (Image config) (Tag config) w of
        (Some err, w1) \<Rightarrow> (Some err, w1)
      | (None, w1) \<Rightarrow>
          (case createLoop 0 (Scale config) config [] w1 of
             (Inl err, w2) \<Rightarrow> (Some err, w2)
           | (Inr containersCreated, w2) \<Rightarrow>
               (case startLoop containersCreated [] w2 of
                  (Inl err, w3) \<Rightarrow> (Some err, w3)
                | (Inr containersStarted, w3) \<Rightarrow>
                    (let retries = 10
                     in RetriableContainerHealthCheck containersStarted retries w3))))"

definition Run_Finally :: "DeployArgs \<Rightarrow> world \<Rightarrow> error option \<times> world" where
  "Run_Finally jobArgs w = removeLoop (ContainersToRemove jobArgs) w"

subsubsection \<open>The closures of Delete\<close>

definition Delete_Run :: "string \<Rightarrow> world \<Rightarrow> error option \<times> world" where
  "Delete_Run deploymentName w =
     (case GetContainersByDeployment deploymentName w of
        (Inl err, w1) \<Rightarrow> (Some err, w1)
      | (Inr cs, w1) \<Rightarrow> removeLoop cs w1)"

text \<open>
  \<open>Finally\<close> of the delete job reports through the logger: \<open>logger.Debugf\<close> before each
  deletion and \<open>logger.Errorf\<close> for the deletion that fails. The third component of
  its result is the calls of the logger it made, in order. (The other closures call
  the logger too; none of their results depends on it, and their lines are left out.)
  \<open>%v\<close> of an error prints its message.
\<close>

datatype logLine = Debugf string | Errorf string

fun errorString :: "error \<Rightarrow> string" where
  "errorString (Error msg) = msg"
| "errorString (Panic msg) = msg"

definition Delete_Finally :: "string \<Rightarrow> world \<Rightarrow> error option \<times> world \<times> logLine list" where
  "Delete_Finally deploymentName w =
     (let lg1 = [Debugf (''removing secrets collection for deployment '' @ deploymentName)] in
      case DeleteSecretsCollection deploymentName w of
        (Some err, w1) \<Rightarrow>
          (Some err, w1, lg1 @ [Errorf (''unable to remove secrets collection '' @ errorString err)])
      | (None, w1) \<Rightarrow>
          (let lg2 = lg1 @ [Debugf (''removing jobs collection for deployment '' @ deploymentName)] in
           case DeleteJobsCollection deploymentName w1 of
             (Some err, w2) \<Rightarrow>
               (Some err, w2, lg2 @ [Errorf (''unable to remove jobs collection '' @ errorString err)])
           | (None, w2) \<Rightarrow>
               (let lg3 = lg2 @ [Debugf (''removing config for deployment '' @ deploymentName)] in
                case DeleteDeploymentConfig deploymentName w2 of
                  (Some err, w3) \<Rightarrow>
                    (Some err, w3,
                     lg3 @ [Errorf (''unable to remove deployment configuration '' @ errorString err)])
                | (None, w3) \<Rightarrow> (None, w3, lg3))))"

subsubsection \<open>The closures of StartContainers and StopContainers\<close>

definition StartContainers_Run :: "string \<Rightarrow> world \<Rightarrow> error option \<times> world" where
  "StartContainers_Run deploymentName w =
     (case GetContainersByDeployment deploymentName w of
        (Inl err, w1) \<Rightarrow> (Some err, w1)
      | (Inr cs, w1) \<Rightarrow>
          if length cs = 0 then
            (Some (Error (''deployment '' @ deploymentName @ '' has 0 containers to start'')), w1)
          else startEach cs w1)"

definition StopContainers_Run :: "string \<Rightarrow> world \<Rightarrow> error option \<times> world" where
  "StopContainers_Run deploymentName w =
     (case GetContainersByDeployment deploymentName w of
        (Inl err, w1) \<Rightarrow> (Some err, w1)
      | (Inr cs, w1) \<Rightarrow>
          if length cs = 0 then
            (Some (Error (''deployment '' @ deploymentName @ '' has 0 containers to stop'')), w1)
          else stopEach cs w1)"

subsubsection \<open>The closures of RestartContainers\<close>

definition RestartContainers_Setup :: "DeployArgs \<Rightarrow> world
    \<Rightarrow> error option \<times> DeployArgs \<times> world" where
  "RestartContainers_Setup jobArgs w =
     (let deploymentName = Name (Config jobArgs) in
      case GetContainersByDeployment deploymentName w of
        (Inl err, w1) \<Rightarrow> (Some err, jobArgs, w1)
      | (Inr cs, w1) \<Rightarrow> (None, jobArgs\<lparr>ContainersToRemove := cs\<rparr>, w1))"

definition RestartContainers_Run :: "DeployArgs \<Rightarrow> world \<Rightarrow> error option \<times> world" where
  "RestartContainers_Run jobArgs w =
     (let config = Config jobArgs in
      case createLoop 0 (Scale config) config [] w of
        (Inl err, w2) \<Rightarrow> (Some err, w2)
      | (Inr containersCreated, w2) \<Rightarrow>
          (case startLoop containersCreated [] w2 of
             (Inl err, w3) \<Rightarrow> (Some err, w3)
           | (Inr containersStarted, w3) \<Rightarrow>
               (let retries = 10
                in RetriableContainerHealthCheck containersStarted retries w3)))"

definition RestartContainers_Finally :: "DeployArgs \<Rightarrow> world \<Rightarrow> error option \<times> world" where
  "RestartContainers_Finally jobArgs w = removeLoop (ContainersToRemove jobArgs) w"

subsubsection \<open>The closures of a job, by its arguments\<close>

text \<open>
  A job built without \<open>Setup\<close> or \<open>Finally\<close> has nothing to run in that phase. The
  phases give the error and the world; the logger's lines of the finalize phase of
  \<open>Delete\<close> are read from \<open>Delete_Finally\<close> itself.
\<close>

fun jobSetup :: "JobArgs \<Rightarrow> world \<Rightarrow> error option \<times> JobArgs \<times> world" where
  "jobSetup (RunDeploymentJobArgs a) w =
     (case Run_Setup a w of (r, a', w') \<Rightarrow> (r, RunDeploymentJobArgs a', w'))"
| "jobSetup (RestartContainersJobArgs a) w =
     (case RestartContainers_Setup a w of (r, a', w') \<Rightarrow> (r, RestartContainersJobArgs a', w'))"
| "jobSetup args w = (None, args, w)"

fun jobRun :: "JobArgs \<Rightarrow> world \<Rightarrow> error option \<times> world" where
  "jobRun (RunDeploymentJobArgs a) w = Run_Run a w"
| "jobRun (DeleteDeploymentJobArgs d) w = Delete_Run d w"
| "jobRun (StartContainersJobArgs d) w = StartContainers_Run d w"
| "jobRun (StopContainersJobArgs d) w = StopContainers_Run d w"
| "jobRun (RestartContainersJobArgs a) w = RestartContainers_Run a w"

fun jobFinally :: "JobArgs \<Rightarrow> world \<Rightarrow> error option \<times> world" where
  "jobFinally (RunDeploymentJobArgs a) w = Run_Finally a w"
| "jobFinally (DeleteDeploymentJobArgs d) w =
     (case Delete_Finally d w of (r, w', lg) \<Rightarrow> (r, w'))"
| "jobFinally (RestartContainersJobArgs a) w = RestartContainers_Finally a w"
| "jobFinally args w = (None, w)"

subsection \<open>The queue and the five actions\<close>

text \<open>
  The process: the goroutines started by \<open>go enqueue(...)\<close> that have not run yet, the
  job queue and its capacity, the lines written to the logger by \<open>enqueue\<close>, the number
  of identifiers \<open>uuid.Generate\<close> has produced, and the value of the environment
  variable read by \<open>utils.UIntEnv(constants.EnvDeploymentRetryPolicy)\<close>.
\<close>

record proc =
  goroutines :: "Job list"
  queue :: "Job list"
  capacity :: nat
  logged :: "string list"
  uuids :: nat
  envRetryPolicy :: nat

text \<open>
  Modelled from the spec: \<open>job.NewEnqueuer(job.Queue()).Enqueue(j)\<close> (package job is not
  among the sources) appends to a bounded FIFO; overflow fails with \<open>QueueFull\<close>.
\<close>

definition Enqueue :: "Job \<Rightarrow> proc \<Rightarrow> (error + Job) \<times> proc" where
  "Enqueue j p =
     (if length (queue p) < capacity p then (Inr j, p\<lparr>queue := queue p @ [j]\<rparr>)
      else (Inl (Error ''QueueFull''), p))"

text \<open>\<open>enqueue\<close> has no result: an error of \<open>Enqueue\<close> ends in the log.\<close>

definition enqueue :: "Job \<Rightarrow> proc \<Rightarrow> proc" where
  "enqueue j p =
     (case Enqueue j p of
        (Inl (Error msg), p') \<Rightarrow>
          p'\<lparr>logged := logged p' @ [''Error enqueuing deployment job '' @ msg]\<rparr>
      | (Inl (Panic msg), p') \<Rightarrow>
          p'\<lparr>logged := logged p' @ [''Error enqueuing deployment job '' @ msg]\<rparr>
      | (Inr queuedJob, p') \<Rightarrow>
          p'\<lparr>logged := logged p' @
             [''Deployment job '' @ job_Deployment queuedJob @ '' queued for processing'']\<rparr>)"

text \<open>
  \<open>go enqueue(j)\<close> starts a goroutine and goes on at once; \<open>runGoroutine\<close> is the
  scheduler letting the oldest one run.
\<close>

definition go_enqueue :: "Job \<Rightarrow> proc \<Rightarrow> proc" where
  "go_enqueue j p = p\<lparr>goroutines := goroutines p @ [j]\<rparr>"

definition runGoroutine :: "proc \<Rightarrow> proc" where
  "runGoroutine p =
     (case goroutines p of
        [] \<Rightarrow> p
      | j # js \<Rightarrow> enqueue j (p\<lparr>goroutines := js\<rparr>))"

definition Run :: "string \<Rightarrow> world \<Rightarrow> proc \<Rightarrow> error option \<times> world \<times> proc" where
  "Run deployment w p =
     (case GetDeploymentConfig deployment w of
        (Inl err, w') \<Rightarrow> (Some err, w', p)
      | (Inr config, w') \<Rightarrow>
          (None, w',
           go_enqueue
             \<lparr>job_ID = uuids p,
              job_Deployment = Name config,
              job_Type = RunDeploymentAction,
              job_RetryPolicy = envRetryPolicy p,
              job_Args = RunDeploymentJobArgs \<lparr>Config = config, ContainersToRemove = []\<rparr>\<rparr>
             (p\<lparr>uuids := Suc (uuids p)\<rparr>)))"

definition Delete :: "string \<Rightarrow> world \<Rightarrow> proc \<Rightarrow> error option \<times> world \<times> proc" where
  "Delete deployment w p =
     (None, w,
      go_enqueue
        \<lparr>job_ID = uuids p,
         job_Deployment = deployment,
         job_Type = DeleteDeploymentAction,
         job_RetryPolicy = envRetryPolicy p,
         job_Args = DeleteDeploymentJobArgs deployment\<rparr>
        (p\<lparr>uuids := Suc (uuids p)\<rparr>))"

definition StartContainers :: "string \<Rightarrow> world \<Rightarrow> proc \<Rightarrow> error option \<times> world \<times> proc" where
  "StartContainers deployment w p =
     (None, w,
      go_enqueue
        \<lparr>job_ID = uuids p,
         job_Deployment = deployment,
         job_Type = StartContainersAction,
         job_RetryPolicy = envRetryPolicy p,
         job_Args = StartContainersJobArgs deployment\<rparr>
        (p\<lparr>uuids := Suc (uuids p)\<rparr>))"

definition StopContainers :: "string \<Rightarrow> world \<Rightarrow> proc \<Rightarrow> error option \<times> world \<times> proc" where
  "StopContainers deployment w p =
     (None, w,
      go_enqueue
        \<lparr>job_ID = uuids p,
         job_Deployment = deployment,
         job_Type = StopContainersAction,
         job_RetryPolicy = envRetryPolicy p,
         job_Args = StopContainersJobArgs deployment\<rparr>
        (p\<lparr>uuids := Suc (uuids p)\<rparr>))"

definition RestartContainers :: "string \<Rightarrow> world \<Rightarrow> proc \<Rightarrow> error option \<times> world \<times> proc" where
  "RestartContainers deployment w p =
     (case GetDeploymentConfig deployment w of
        (Inl err, w') \<Rightarrow>
          (Some (Error (''unable to get configuration for deployment '' @ deployment)), w', p)
      | (Inr config, w') \<Rightarrow>
          (None, w',
           go_enqueue
             \<lparr>job_ID = uuids p,
              job_Deployment = deployment,
              job_Type = RestartContainersAction,
              job_RetryPolicy = envRetryPolicy p,
              job_Args = RestartContainersJobArgs \<lparr>Config = config, ContainersToRemove = []\<rparr>\<rparr>
             (p\<lparr>uuids := Suc (uuids p)\<rparr>)))"

section \<open>The workflow steps of package service\<close>

text \<open>
  \<open>job.Args\<close> is a \<open>map[string]interface{}\<close>. The steps read \<open>args["config"]\<close> as a
  \<open>config.Kconfig\<close> and \<open>args["newContainers"]\<close> as a pointer to a slice of containers; a
  type assertion on a missing key or on a value of another type panics. \<open>Kconfig\<close> and
  \<open>Kcontainer\<close> are declared elsewhere: they are \<open>Config\<close> and \<open>KraneContainer\<close> here,
  and \<open>container.Create\<close>, \<open>Start\<close> and \<open>PullImage\<close> are the collaborators above.
\<close>

datatype arg = ArgConfig Config | ArgContainers "KraneContainer list"

type_synonym Args = "string \<Rightarrow> arg option"

definition errAssertion :: error where
  "errAssertion = Panic ''interface conversion''"

definition pullImage :: "Args \<Rightarrow> world \<Rightarrow> error option \<times> Args \<times> world" where
  "pullImage args w =
     (case args ''config'' of
        Some (ArgConfig cfg) \<Rightarrow>
          (case GetClient_PullImage (Registry cfg) (Image cfg) (Tag cfg) w of
             (r, w') \<Rightarrow> (r, args, w'))
      | _ \<Rightarrow> (Some errAssertion, args, w))"

definition createContainers :: "Args \<Rightarrow> world \<Rightarrow> error option \<times> Args \<times> world" where
  "createContainers args w =
     (case args ''config'' of
        Some (ArgConfig cfg) \<Rightarrow>
          (let scale = 1 in
           case createLoop 0 scale cfg [] w of
             (Inl err, w') \<Rightarrow> (Some err, args, w')
           | (Inr newContainers, w') \<Rightarrow>
               (None, args(''newContainers'' \<mapsto> ArgContainers newContainers), w'))
      | _ \<Rightarrow> (Some errAssertion, args, w))"

definition startContainers :: "Args \<Rightarrow> world \<Rightarrow> error option \<times> Args \<times> world" where
  "startContainers args w =
     (case args ''newContainers'' of
        Some (ArgContainers newContainers) \<Rightarrow>
          (case startEach newContainers w of (r, w') \<Rightarrow> (r, args, w'))
      | _ \<Rightarrow> (Some errAssertion, args, w))"

text \<open>
  Modelled from the spec: \<open>Ok()\<close> of a container (not among the sources) is the health
  predicate; it returns \<open>(healthy, err)\<close>, where \<open>err\<close> is a hard failure.
  \<open>time.Sleep\<close> of a number of seconds only is an event.
\<close>

definition Ok :: "KraneContainer \<Rightarrow> world \<Rightarrow> (error + bool) \<times> world" where
  "Ok c w =
     (case call (EvOk c) w of
        (Some err, w') \<Rightarrow> (Inl err, w')
      | (None, w') \<Rightarrow> (Inr (healthy w' (trace w')), w'))"

definition Sleep :: "int \<Rightarrow> world \<Rightarrow> world" where
  "Sleep seconds w = w\<lparr>trace := trace w @ [EvSleep seconds]\<rparr>"

definition errUnstable :: "error option \<Rightarrow> error" where
  "errUnstable err =
     Error (''container health unstable '' @
            (case err of None \<Rightarrow> ''<nil>'' | Some (Error msg) \<Rightarrow> msg | Some (Panic msg) \<Rightarrow> msg))"

text \<open>
  The inner loop, \<open>for i := 0; i <= pollRetry; i++\<close>, for one container. \<open>None\<close> is
  the \<open>break\<close> (and the end of the loop): the outer loop goes on with the next container.
\<close>

function pollLoop :: "int \<Rightarrow> int \<Rightarrow> KraneContainer \<Rightarrow> world \<Rightarrow> error option \<times> world" where
  "pollLoop pollRetry i newContainer w =
     (if i \<le> pollRetry then
        (let expBackOff = 10 * i;
             w1 = Sleep expBackOff w
         in case Ok newContainer w1 of
              (Inl err, w2) \<Rightarrow>
                if i = pollRetry then (Some (errUnstable (Some err)), w2)
                else pollLoop pollRetry (i + 1) newContainer w2
            | (Inr ok, w2) \<Rightarrow>
                if \<not> ok then
                  (if i = pollRetry then (Some (errUnstable None), w2)
                   else pollLoop pollRetry (i + 1) newContainer w2)
                else (None, w2))
      else (None, w))"
  by pat_completeness auto
termination
  by (relation "measure (\<lambda>(pollRetry, i, c, w). nat (pollRetry + 1 - i))") auto

declare pollLoop.simps [simp del]

fun healthLoop :: "int \<Rightarrow> KraneContainer list \<Rightarrow> world \<Rightarrow> error option \<times> world" where
  "healthLoop pollRetry [] w = (None, w)"
| "healthLoop pollRetry (newContainer # cs) w =
     (case pollLoop pollRetry 0 newContainer w of
        (Some err, w') \<Rightarrow> (Some err, w')
      | (None, w') \<Rightarrow> healthLoop pollRetry cs w')"

definition checkNewContainersHealth :: "Args \<Rightarrow> world \<Rightarrow> error option \<times> Args \<times> world" where
  "checkNewContainersHealth args w =
     (case args ''newContainers'' of
        Some (ArgContainers newContainers) \<Rightarrow>
          (let pollRetry = 10 in
           case healthLoop pollRetry newContainers w of (r, w') \<Rightarrow> (r, args, w'))
      | _ \<Rightarrow> (Some errAssertion, args, w))"

definition createSecretsCollection :: "Args \<Rightarrow> world \<Rightarrow> error option \<times> Args \<times> world" where
  "createSecretsCollection args w =
     (case args ''config'' of
        Some (ArgConfig cfg) \<Rightarrow>
          (case CreateSecretsCollection (Name cfg) w of (r, w') \<Rightarrow> (r, args, w'))
      | _ \<Rightarrow> (Some errAssertion, args, w))"

definition createJobsCollection :: "Args \<Rightarrow> world \<Rightarrow> error option \<times> Args \<times> world" where
  "createJobsCollection args w =
     (case args ''config'' of
        Some (ArgConfig cfg) \<Rightarrow>
          (case CreateJobsCollection (Name cfg) w of (r, w') \<Rightarrow> (r, args, w'))
      | _ \<Rightarrow> (Some errAssertion, args, w))"

section \<open>Worlds to run the jobs in\<close>

text \<open>
  \<open>quietWorld\<close>: nothing fails and probes report healthy. \<open>sickWorld\<close>: nothing fails
  and no probe ever reports healthy. \<open>secretsFault\<close>: deleting a secrets collection
  fails, everything else works (\<open>jobsFault\<close> below: the same for a jobs collection).
\<close>

definition emptyWorld :: "(event list \<Rightarrow> error option) \<Rightarrow> (event list \<Rightarrow> bool) \<Rightarrow> world" where
  "emptyWorld f h =
     \<lparr>trace = [], fault = f, healthy = h, containers = [], next_id = 0,
      deployments = [], collections = []\<rparr>"

definition quietWorld :: world where
  "quietWorld = emptyWorld (\<lambda>_. None) (\<lambda>_. True)"

definition sickWorld :: world where
  "sickWorld = emptyWorld (\<lambda>_. None) (\<lambda>_. False)"

definition secretsFault :: "event list \<Rightarrow> error option" where
  "secretsFault t =
     (case rev t of
        EvDeleteSecretsCollection _ # _ \<Rightarrow> Some (Error ''StoreIO'')
      | _ \<Rightarrow> None)"

definition webConfig :: Config where
  "webConfig = \<lparr>Name = ''web'', Registry = ''docker.io'', Image = ''nginx'', Tag = ''1.25'', Scale = 2\<rparr>"

section \<open>Vocabulary of the properties\<close>

text \<open>
  The containers \<open>ContainerCreate\<close> makes for a configuration, from the runtime's next
  identity on; whether every container of the runtime is older than the next identity;
  the pull events of a trace; and whether a world comes from another by events that
  are no pulls.
\<close>

definition newContainers :: "Config \<Rightarrow> nat \<Rightarrow> nat \<Rightarrow> KraneContainer list" where
  "newContainers config base n =
     map (\<lambda>k. \<lparr>ID = base + k, Deployment = Name config, State = Created\<rparr>) [0..<n]"

definition started :: "KraneContainer \<Rightarrow> KraneContainer" where
  "started c = c\<lparr>State := Running\<rparr>"

definition startAll :: "KraneContainer list \<Rightarrow> KraneContainer list \<Rightarrow> KraneContainer list" where
  "startAll cs l = map (\<lambda>x. if ID x \<in> ID ` set cs then started x else x) l"

definition freshIDs :: "world \<Rightarrow> bool" where
  "freshIDs w = list_all (\<lambda>c. ID c < next_id w) (containers w)"

definition ofDeployment :: "string \<Rightarrow> world \<Rightarrow> KraneContainer list" where
  "ofDeployment deployment w = filter (\<lambda>c. Deployment c = deployment) (containers w)"

fun isPull :: "event \<Rightarrow> bool" where
  "isPull (EvPullImage _ _ _) = True"
| "isPull _ = False"

definition noPullSince :: "world \<Rightarrow> world \<Rightarrow> bool" where
  "noPullSince w w' =
     (take (length (trace w)) (trace w') = trace w \<and>
      filter isPull (drop (length (trace w)) (trace w')) = [])"

text \<open>
  What the finalize phase of \<open>Delete\<close> leaves behind when its first \<open>s\<close> deletions
  succeeded: the store without the collections and the configuration deleted so far.
  And what it tells the logger when it attempted \<open>k\<close> deletions and returned \<open>r\<close>: one
  debug line per attempt and, after them, the error line of the attempt that failed.
\<close>

definition afterDeletions :: "string \<Rightarrow> nat \<Rightarrow> world \<Rightarrow> world" where
  "afterDeletions name s w =
     w\<lparr>collections :=
          (if 2 \<le> s then removeAll (''jobs:'' @ name) (removeAll (''secrets:'' @ name) (collections w))
           else if 1 \<le> s then removeAll (''secrets:'' @ name) (collections w)
           else collections w),
       deployments :=
          (if 3 \<le> s then filter (\<lambda>kv. fst kv \<noteq> name) (deployments w) else deployments w)\<rparr>"

definition finalizeDebug :: "string \<Rightarrow> logLine list" where
  "finalizeDebug name =
     [Debugf (''removing secrets collection for deployment '' @ name),
      Debugf (''removing jobs collection for deployment '' @ name),
      Debugf (''removing config for deployment '' @ name)]"

definition finalizeErrorPrefix :: "nat \<Rightarrow> string" where
  "finalizeErrorPrefix k =
     (if k = 1 then ''unable to remove secrets collection ''
      else if k = 2 then ''unable to remove jobs collection ''
      else ''unable to remove deployment configuration '')"

definition finalizeLog :: "string \<Rightarrow> nat \<Rightarrow> error option \<Rightarrow> logLine list" where
  "finalizeLog name k r =
     take k (finalizeDebug name) @
     (case r of None \<Rightarrow> [] | Some err \<Rightarrow> [Errorf (finalizeErrorPrefix k @ errorString err)])"

definition jobsFault :: "event list \<Rightarrow> error option" where
  "jobsFault t =
     (case rev t of
        EvDeleteJobsCollection _ # _ \<Rightarrow> Some (Error ''StoreIO'')
      | _ \<Rightarrow> None)"

text \<open>The three deletions of the finalize phase of \<open>Delete\<close>, in the order of the code.\<close>

definition finalizeEvents :: "string \<Rightarrow> event list" where
  "finalizeEvents name =
     [EvDeleteSecretsCollection name, EvDeleteJobsCollection name, EvDeleteDeploymentConfig name]"

text \<open>
  A store holding the deployment \<open>web\<close> and its two collections; the same with one
  running container of \<open>web\<close>; the arguments of a job for \<open>web\<close>; processes.
\<close>

definition storeWithWeb :: "(event list \<Rightarrow> error option) \<Rightarrow> world" where
  "storeWithWeb f = (emptyWorld f (\<lambda>_. True))
     \<lparr>deployments := [(''web'', webConfig)], collections := [''secrets:web'', ''jobs:web'']\<rparr>"

definition liveWorld :: world where
  "liveWorld = (storeWithWeb (\<lambda>_. None))
     \<lparr>containers := [\<lparr>ID = 0, Deployment = ''web'', State = Running\<rparr>], next_id := 1\<rparr>"

definition webArgs :: DeployArgs where
  "webArgs = \<lparr>Config = webConfig, ContainersToRemove = []\<rparr>"

definition idleProc :: "nat \<Rightarrow> proc" where
  "idleProc cap = \<lparr>goroutines = [], queue = [], capacity = cap, logged = [], uuids = 0,
     envRetryPolicy = 1\<rparr>"

definition deleteJob :: "string \<Rightarrow> proc \<Rightarrow> Job" where
  "deleteJob deployment p =
     \<lparr>job_ID = uuids p, job_Deployment = deployment, job_Type = DeleteDeploymentAction,
      job_RetryPolicy = envRetryPolicy p, job_Args = DeleteDeploymentJobArgs deployment\<rparr>"

definition isFull :: "proc \<Rightarrow> bool" where
  "isFull p = (capacity p \<le> length (queue p))"

definition fullProc :: proc where
  "fullProc = (idleProc 1)\<lparr>queue := [deleteJob ''db'' (idleProc 1)]\<rparr>"

definition sickArgs :: Args where
  "sickArgs = [''newContainers'' \<mapsto> ArgContainers [\<lparr>ID = 0, Deployment = ''web'', State = Running\<rparr>]]"

text \<open>
  The events of \<open>k\<close> probe attempts on a container, the first of them attempt \<open>i\<close>:
  each is the sleep of \<open>10 * i\<close> seconds, then the probe. \<open>attempts c k\<close> are the
  first \<open>k\<close> attempts, counted from 0; \<open>blocks cs ks\<close> are the attempts on each
  container of \<open>cs\<close> in turn, \<open>ks\<close> giving how many. \<open>probePassed w t\<close>: the probe
  that ends the trace \<open>t\<close> reported healthy.
\<close>

primrec attemptsFrom :: "KraneContainer \<Rightarrow> int \<Rightarrow> nat \<Rightarrow> event list" where
  "attemptsFrom c i 0 = []"
| "attemptsFrom c i (Suc k) = EvSleep (10 * i) # EvOk c # attemptsFrom c (i + 1) k"

definition attempts :: "KraneContainer \<Rightarrow> nat \<Rightarrow> event list" where
  "attempts c k = attemptsFrom c 0 k"

definition blocks :: "KraneContainer list \<Rightarrow> nat list \<Rightarrow> event list" where
  "blocks cs ks = concat (map (\<lambda>(c, k). attempts c k) (zip cs ks))"

definition probePassed :: "world \<Rightarrow> event list \<Rightarrow> bool" where
  "probePassed w t = (fault w t = None \<and> healthy w t)"

fun isProbe :: "event \<Rightarrow> bool" where
  "isProbe (EvOk _) = True"
| "isProbe _ = False"

fun sleptSeconds :: "event list \<Rightarrow> int" where
  "sleptSeconds [] = 0"
| "sleptSeconds (EvSleep s # t) = s + sleptSeconds t"
| "sleptSeconds (_ # t) = sleptSeconds t"

section \<open>Properties of the docker package\<close>

subsection \<open>Image references\<close>

text \<open>
  C7, as amended. \<open>FormatImageSourceURL\<close> always writes \<open>repo/image:tag\<close>, with the tag
  \<open>latest\<close> in place of an empty one. The registry part is not optional: an empty
  \<open>repo\<close> still leaves the slash at the front of the reference.
\<close>

theorem FormatImageSourceURL_always_prefixed:
  "FormatImageSourceURL repo imageName tag =
     repo @ ''/'' @ imageName @ '':'' @ (if tag = [] then ''latest'' else tag)"
  by (simp add: FormatImageSourceURL_def)

theorem FormatImageSourceURL_always_prefixed_witness:
  "FormatImageSourceURL ''docker.io'' ''nginx'' [] = ''docker.io/nginx:latest'' \<and>
   FormatImageSourceURL ''docker.io'' ''nginx'' ''1.25'' = ''docker.io/nginx:1.25'' \<and>
   FormatImageSourceURL [] ''nginx'' [] = ''/nginx:latest''"
  using FormatImageSourceURL_always_prefixed [of "''docker.io''" "''nginx''" "[]"]
        FormatImageSourceURL_always_prefixed [of "''docker.io''" "''nginx''" "''1.25''"]
        FormatImageSourceURL_always_prefixed [of "[]" "''nginx''" "[]"]
  by simp

text \<open>
  C7 as stated fails: with no registry the reference of image \<open>nginx\<close>, tag \<open>1.25\<close> is
  \<open>/nginx:1.25\<close>, not \<open>nginx:1.25\<close>.
\<close>

theorem FormatImageSourceURL_empty_registry_counterexample:
  "FormatImageSourceURL [] ''nginx'' ''1.25'' = ''/nginx:1.25'' \<and>
   FormatImageSourceURL [] ''nginx'' ''1.25'' \<noteq> ''nginx:1.25''"
  by (simp add: FormatImageSourceURL_def)

subsection \<open>The client must be initialized\<close>

text \<open>
  C10. While \<open>dkrClient\<close> is nil, every exported operation that talks to the daemon
  returns the error "docker client not initialized" and leaves the daemon as it was:
  there is no client whose method could be called, whatever the arguments (a nil
  context included).
\<close>

theorem uninitialized_client_refused:
  "PullImage None ctx image' d = (Inl errClientNotInitialized, d) \<and>
   CreateContainer NewPort None ctx image' deploymentName containerName networkID hPort cPort d
     = (Inl errClientNotInitialized, d) \<and>
   StartContainer None ctx containerID d = (Some errClientNotInitialized, d) \<and>
   ConnectContainerToNetwork None ctx networkID containerID d = (Some errClientNotInitialized, d) \<and>
   StopContainer None ctx containerID d = (Some errClientNotInitialized, d) \<and>
   RemoveContainer None ctx containerID d = (Some errClientNotInitialized, d) \<and>
   ListContainers None ctx d = (Inl errClientNotInitialized, d) \<and>
   GetContainerStatus None ctx containerID stream d = (Inl errClientNotInitialized, d) \<and>
   CreateBridgeNetwork None ctx name d = (Inl errClientNotInitialized, d) \<and>
   GetNetworkByName None ctx name d = (Inl errClientNotInitialized, d) \<and>
   RemoveImage None ctx imageID d = (Inl errClientNotInitialized, d) \<and>
   ReadContainerLogs None ctx containerID d = (Inl errClientNotInitialized, d) \<and>
   errClientNotInitialized = Error ''docker client not initialized''"
  by (simp add: PullImage_def CreateContainer_def StartContainer_def
      ConnectContainerToNetwork_def StopContainer_def RemoveContainer_def ListContainers_def
      GetContainerStatus_def CreateBridgeNetwork_def GetNetworkByName_def RemoveImage_def
      ReadContainerLogs_def errClientNotInitialized_def)

subsection \<open>The container specification\<close>

text \<open>
  C6, as amended. \<open>CreateContainer\<close> has no configuration among its arguments. When
  the container port parses, the specification it hands to the client has the fixed
  hostname \<open>bsn\<close> and the fixed environment \<open>TEST_ENV=pipi\<close>; the image, the label
  \<open>deployment.name\<close>, the port binding on 0.0.0.0, the network and the container's
  name are the arguments'.
\<close>

theorem CreateContainer_spec:
  assumes "NewPort ''tcp'' cPort = Inr containerPort"
  shows "CreateContainer NewPort (Some c) (Some ctx) image' deploymentName containerName
           networkID hPort cPort d =
         ContainerCreate c
           \<lparr>Hostname = ''bsn'', conf_Image = image', Env = [''TEST_ENV=pipi''],
            Labels = [(''deployment.name'', deploymentName)]\<rparr>
           \<lparr>PortBindings = [(containerPort, [\<lparr>HostIP = ''0.0.0.0'', HostPort = hPort\<rparr>])],
            AutoRemove = False\<rparr>
           \<lparr>EndpointsConfig = [(''krane'', \<lparr>NetworkID = networkID\<rparr>)]\<rparr>
           containerName d"
  using assms by (simp add: CreateContainer_def)

theorem CreateContainer_spec_witness:
  "CreateContainer (\<lambda>proto port. Inr (port @ ''/'' @ proto)) (Some recordingClient) (Some ())
      ''nginx:1.25'' ''web'' ''web-01'' ''net0'' ''8080'' ''80'' [] =
   (Inr \<lparr>created_ID = ''c'', created_Warnings = []\<rparr>,
    [\<lparr>Hostname = ''bsn'', conf_Image = ''nginx:1.25'', Env = [''TEST_ENV=pipi''],
      Labels = [(''deployment.name'', ''web'')]\<rparr>])"
  using CreateContainer_spec [where NewPort = "\<lambda>proto port. Inr (port @ ''/'' @ proto)"
      and cPort = "''80''" and containerPort = "''80/tcp''" and c = recordingClient
      and ctx = "()" and image' = "''nginx:1.25''" and deploymentName = "''web''"
      and containerName = "''web-01''" and networkID = "''net0''" and hPort = "''8080''"
      and d = "[]"]
  by (simp add: recordingClient_def)

text \<open>
  C6 as stated fails: for the deployment \<open>web\<close> the daemon is asked for a container
  with hostname \<open>bsn\<close> and environment \<open>TEST_ENV=pipi\<close>.
\<close>

theorem CreateContainer_fixed_hostname_counterexample:
  "map Hostname (snd (CreateContainer (\<lambda>proto port. Inr (port @ ''/'' @ proto))
      (Some recordingClient) (Some ()) ''nginx:1.25'' ''web'' ''web-01'' ''net0'' ''8080'' ''80'' []))
     = [''bsn''] \<and>
   map Env (snd (CreateContainer (\<lambda>proto port. Inr (port @ ''/'' @ proto))
      (Some recordingClient) (Some ()) ''nginx:1.25'' ''web'' ''web-01'' ''net0'' ''8080'' ''80'' []))
     = [[''TEST_ENV=pipi'']] \<and>
   ''bsn'' \<noteq> ''web''"
  by (simp add: CreateContainer_def recordingClient_def)

subsection \<open>The bridge network\<close>

lemma firstNamed_found:
  "name \<in> set (map net_Name nets) \<Longrightarrow>
     firstNamed name nets \<in> set nets \<and> net_Name (firstNamed name nets) = name"
  by (induction nets) auto

lemma firstNamed_missing:
  "name \<notin> set (map net_Name nets) \<Longrightarrow> firstNamed name nets = zeroNetworkResource"
  by (induction nets) auto

lemma firstNamed_appended:
  "name \<notin> set (map net_Name nets) \<Longrightarrow>
     firstNamed name (nets @ [\<lparr>net_Name = name, net_ID = i\<rparr>]) = \<lparr>net_Name = name, net_ID = i\<rparr>"
  by (induction nets) auto

text \<open>
  Whatever the client: when the daemon lists a network of that name (and no network
  has an empty ID), the answer is the ID of the first such network and the daemon is
  in the state the listing left it in; \<open>NetworkCreate\<close> is not called.
\<close>

lemma CreateBridgeNetwork_any_client:
  assumes "NetworkList c d = (Inr nets, d')"
    and "name \<in> set (map net_Name nets)" and "validIDs nets"
  shows "CreateBridgeNetwork (Some c) (Some ctx) name d =
           (Inr \<lparr>response_ID = net_ID (firstNamed name nets), response_Warning = []\<rparr>, d')"
  using assms firstNamed_found [of name nets]
  by (auto simp add: CreateBridgeNetwork_def GetNetworkByName_def validIDs_def list_all_iff)

lemma CreateBridgeNetwork_existing:
  assumes "validIDs d" and "name \<in> set (map net_Name d)"
  shows "CreateBridgeNetwork (Some networkClient) (Some ctx) name d =
           (Inr \<lparr>response_ID = net_ID (firstNamed name d), response_Warning = []\<rparr>, d)"
  using assms firstNamed_found [of name d]
  by (auto simp add: CreateBridgeNetwork_def GetNetworkByName_def networkClient_def
      validIDs_def list_all_iff)

lemma CreateBridgeNetwork_new:
  assumes "name \<notin> set (map net_Name d)"
  shows "CreateBridgeNetwork (Some networkClient) (Some ctx) name d =
           (Inr \<lparr>response_ID = freshNetworkID d, response_Warning = []\<rparr>,
            d @ [\<lparr>net_Name = name, net_ID = freshNetworkID d\<rparr>])"
  using assms firstNamed_missing [of name d]
  by (auto simp add: CreateBridgeNetwork_def GetNetworkByName_def networkClient_def
      networkCreate_def zeroNetworkResource_def)

text \<open>
  C9. Against a daemon whose networks all have an ID, two consecutive calls of
  \<open>CreateBridgeNetwork\<close> with one name return the same non-empty ID, and the second
  call changes nothing. If a network of that name existed before the first call, the
  first call changes nothing either and returns the ID of the first such network;
  otherwise exactly one network of that name exists afterwards.
\<close>

theorem CreateBridgeNetwork_idempotent:
  assumes "validIDs d"
    and "CreateBridgeNetwork (Some networkClient) (Some ctx) name d = (r1, d1)"
    and "CreateBridgeNetwork (Some networkClient) (Some ctx) name d1 = (r2, d2)"
  shows "(\<exists>resp. r1 = Inr resp \<and> r2 = Inr resp \<and> response_ID resp \<noteq> []) \<and> d2 = d1 \<and>
         (if name \<in> set (map net_Name d)
          then d1 = d \<and> r1 = Inr \<lparr>response_ID = net_ID (firstNamed name d), response_Warning = []\<rparr>
          else length (networksNamed name d1) = 1)"
proof (cases "name \<in> set (map net_Name d)")
  case True
  with assms CreateBridgeNetwork_existing [of d name ctx] firstNamed_found [of name d]
  show ?thesis by (auto simp: validIDs_def list_all_iff)
next
  case False
  from CreateBridgeNetwork_new [OF False, of ctx] assms(2)
  have r1: "r1 = Inr \<lparr>response_ID = freshNetworkID d, response_Warning = []\<rparr>"
    and d1: "d1 = d @ [\<lparr>net_Name = name, net_ID = freshNetworkID d\<rparr>]" by auto
  have v1: "validIDs d1" using assms(1) by (simp add: d1 validIDs_def freshNetworkID_def)
  have in1: "name \<in> set (map net_Name d1)" by (simp add: d1)
  have fn: "firstNamed name d1 = \<lparr>net_Name = name, net_ID = freshNetworkID d\<rparr>"
    using False unfolding d1 by (rule firstNamed_appended)
  from CreateBridgeNetwork_existing [OF v1 in1, of ctx] assms(3) fn
  have "r2 = r1" and "d2 = d1" by (auto simp: r1)
  moreover have "length (networksNamed name d1) = 1"
    using False by (auto simp add: d1 networksNamed_def filter_empty_conv)
  ultimately show ?thesis using False by (simp add: r1 freshNetworkID_def)
qed

theorem CreateBridgeNetwork_idempotent_witness:
  "validIDs [\<lparr>net_Name = ''bridge'', net_ID = ''b1''\<rparr>] \<and>
   CreateBridgeNetwork (Some networkClient) (Some ()) ''krane'' [\<lparr>net_Name = ''bridge'', net_ID = ''b1''\<rparr>]
     = (Inr \<lparr>response_ID = ''nb1'', response_Warning = []\<rparr>,
        [\<lparr>net_Name = ''bridge'', net_ID = ''b1''\<rparr>, \<lparr>net_Name = ''krane'', net_ID = ''nb1''\<rparr>]) \<and>
   CreateBridgeNetwork (Some networkClient) (Some ()) ''krane''
        [\<lparr>net_Name = ''bridge'', net_ID = ''b1''\<rparr>, \<lparr>net_Name = ''krane'', net_ID = ''nb1''\<rparr>]
     = (Inr \<lparr>response_ID = ''nb1'', response_Warning = []\<rparr>,
        [\<lparr>net_Name = ''bridge'', net_ID = ''b1''\<rparr>, \<lparr>net_Name = ''krane'', net_ID = ''nb1''\<rparr>]) \<and>
   length (networksNamed ''krane''
        [\<lparr>net_Name = ''bridge'', net_ID = ''b1''\<rparr>, \<lparr>net_Name = ''krane'', net_ID = ''nb1''\<rparr>]) = 1"
proof -
  let ?d = "[\<lparr>net_Name = ''bridge'', net_ID = ''b1''\<rparr>]"
  let ?d1 = "[\<lparr>net_Name = ''bridge'', net_ID = ''b1''\<rparr>, \<lparr>net_Name = ''krane'', net_ID = ''nb1''\<rparr>]"
  let ?r = "Inr \<lparr>response_ID = ''nb1'', response_Warning = []\<rparr> :: error + NetworkCreateResponse"
  have v: "validIDs ?d" by (simp add: validIDs_def)
  have c1: "CreateBridgeNetwork (Some networkClient) (Some ()) ''krane'' ?d = (?r, ?d1)"
    by (simp add: CreateBridgeNetwork_def GetNetworkByName_def networkClient_def
        networkCreate_def zeroNetworkResource_def freshNetworkID_def)
  have c2: "CreateBridgeNetwork (Some networkClient) (Some ()) ''krane'' ?d1 = (?r, ?d1)"
    by (simp add: CreateBridgeNetwork_def GetNetworkByName_def networkClient_def)
  from CreateBridgeNetwork_idempotent [OF v c1 c2] v c1 c2
  show ?thesis by simp
qed

section \<open>Properties of the jobs\<close>

subsection \<open>The collaborators and the loops\<close>

lemma call_eq: "call e w = (fault w (trace w @ [e]), w\<lparr>trace := trace w @ [e]\<rparr>)"
  by (simp add: call_def Let_def)

lemma newContainers_Suc:
  "newContainers config base (Suc n) =
     \<lparr>ID = base, Deployment = Name config, State = Created\<rparr> # newContainers config (Suc base) n"
  by (simp add: newContainers_def upt_conv_Cons map_Suc_upt [symmetric] del: upt_Suc)

lemma newContainers_0 [simp]: "newContainers config base 0 = []"
  by (simp add: newContainers_def)

lemma length_newContainers [simp]: "length (newContainers config base n) = n"
  by (simp add: newContainers_def)

lemma ContainerCreate'_cases:
  assumes "ContainerCreate' config w = (r, w')"
  obtains (fail) err where "r = Inl err" "w' = w\<lparr>trace := trace w @ [EvContainerCreate config]\<rparr>"
  | (ok) "r = Inr \<lparr>ID = next_id w, Deployment = Name config, State = Created\<rparr>"
      "w' = w\<lparr>trace := trace w @ [EvContainerCreate config],
              containers := containers w @ [\<lparr>ID = next_id w, Deployment = Name config, State = Created\<rparr>],
              next_id := Suc (next_id w)\<rparr>"
  using assms by (auto simp: ContainerCreate'_def call_eq Let_def split: option.splits)

lemma createLoop_success:
  "createLoop i scale config acc w = (Inr cs, w') \<Longrightarrow>
     cs = acc @ newContainers config (next_id w) (nat (scale - i)) \<and>
     w' = w\<lparr>trace := trace w @ replicate (nat (scale - i)) (EvContainerCreate config),
            containers := containers w @ newContainers config (next_id w) (nat (scale - i)),
            next_id := next_id w + nat (scale - i)\<rparr>"
proof (induction i scale config acc w rule: createLoop.induct)
  case (1 i scale config acc w)
  show ?case
  proof (cases "i < scale")
    case False
    with "1.prems" show ?thesis by (simp add: createLoop.simps [of i])
  next
    case True
    then have n: "nat (scale - i) = Suc (nat (scale - (i + 1)))" by simp
    obtain r w1 where cc: "ContainerCreate' config w = (r, w1)"
      by (cases "ContainerCreate' config w")
    from cc show ?thesis
    proof (cases rule: ContainerCreate'_cases)
      case (fail err)
      with "1.prems" True cc show ?thesis by (simp add: createLoop.simps [of i])
    next
      case ok
      with "1.prems" True cc
      have rec: "createLoop (i + 1) scale config
                   (acc @ [\<lparr>ID = next_id w, Deployment = Name config, State = Created\<rparr>]) w1
                 = (Inr cs, w')" by (simp add: createLoop.simps [of i])
      from "1.IH" [OF True cc [symmetric] _ rec] ok(1)
      show ?thesis
        by (simp add: ok(2) n newContainers_Suc)
    qed
  qed
qed

lemma createLoop_noPull:
  "createLoop i scale config acc w = (r, w') \<Longrightarrow>
     \<exists>k. trace w' = trace w @ replicate k (EvContainerCreate config)"
proof (induction i scale config acc w rule: createLoop.induct)
  case (1 i scale config acc w)
  show ?case
  proof (cases "i < scale")
    case False
    with "1.prems" have "trace w' = trace w @ replicate 0 (EvContainerCreate config)"
      by (simp add: createLoop.simps [of i])
    then show ?thesis by blast
  next
    case True
    obtain r1 w1 where cc: "ContainerCreate' config w = (r1, w1)"
      by (cases "ContainerCreate' config w")
    from cc show ?thesis
    proof (cases rule: ContainerCreate'_cases)
      case (fail err)
      with "1.prems" True cc have "trace w' = trace w @ replicate 1 (EvContainerCreate config)"
        by (auto simp add: createLoop.simps [of i])
      then show ?thesis by blast
    next
      case ok
      with "1.prems" True cc
      have rec: "createLoop (i + 1) scale config
                   (acc @ [\<lparr>ID = next_id w, Deployment = Name config, State = Created\<rparr>]) w1
                 = (r, w')" by (simp add: createLoop.simps [of i])
      from "1.IH" [OF True cc [symmetric] _ rec] ok(1)
      obtain k where "trace w' = trace w1 @ replicate k (EvContainerCreate config)" by auto
      then have "trace w' = trace w @ replicate (Suc k) (EvContainerCreate config)"
        by (simp add: ok(2))
      then show ?thesis by blast
    qed
  qed
qed

lemma startAll_Nil [simp]: "startAll [] l = l"
  by (simp add: startAll_def)

lemma startAll_Cons: "startAll cs (setState (ID c) Running l) = startAll (c # cs) l"
  by (auto simp add: startAll_def setState_def started_def)

lemma Start_eq:
  "Start c w = (case fault w (trace w @ [EvStart c]) of
                  Some err \<Rightarrow> (Some err, w\<lparr>trace := trace w @ [EvStart c]\<rparr>)
                | None \<Rightarrow> (None, w\<lparr>trace := trace w @ [EvStart c],
                              containers := setState (ID c) Running (containers w)\<rparr>))"
  by (simp add: Start_def call_eq split: option.splits)

lemma Remove_eq:
  "Remove c w = (case fault w (trace w @ [EvRemove c]) of
                  Some err \<Rightarrow> (Some err, w\<lparr>trace := trace w @ [EvRemove c]\<rparr>)
                | None \<Rightarrow> (None, w\<lparr>trace := trace w @ [EvRemove c],
                              containers := filter (\<lambda>x. ID x \<noteq> ID c) (containers w)\<rparr>))"
  by (simp add: Remove_def call_eq split: option.splits)

lemma startLoop_success:
  "startLoop cs acc w = (Inr st, w') \<Longrightarrow>
     st = acc @ cs \<and>
     w' = w\<lparr>trace := trace w @ map EvStart cs, containers := startAll cs (containers w)\<rparr>"
proof (induction cs arbitrary: acc w)
  case Nil
  then show ?case by simp
next
  case (Cons c cs)
  from Cons.prems obtain w1 where
    s: "Start c w = (None, w1)" and rec: "startLoop cs (acc @ [c]) w1 = (Inr st, w')"
    by (auto split: prod.splits option.splits)
  from s have w1: "w1 = w\<lparr>trace := trace w @ [EvStart c],
                          containers := setState (ID c) Running (containers w)\<rparr>"
    by (auto simp: Start_eq split: option.splits)
  from Cons.IH [OF rec] show ?case
    by (simp add: w1 startAll_Cons)
qed

lemma startLoop_trace:
  "startLoop cs acc w = (r, w') \<Longrightarrow> \<exists>k. trace w' = trace w @ map EvStart (take k cs)"
proof (induction cs arbitrary: acc w)
  case Nil
  then show ?case by simp
next
  case (Cons c cs)
  show ?case
  proof (cases "fault w (trace w @ [EvStart c])")
    case (Some e)
    with Cons.prems have "trace w' = trace w @ map EvStart (take 1 (c # cs))"
      by (auto simp: Start_eq)
    then show ?thesis by blast
  next
    case None
    with Cons.prems have rec: "startLoop cs (acc @ [c])
        (w\<lparr>trace := trace w @ [EvStart c], containers := setState (ID c) Running (containers w)\<rparr>)
        = (r, w')"
      by (simp add: Start_eq)
    from Cons.IH [OF rec] obtain k where
      "trace w' = trace w @ map EvStart (take (Suc k) (c # cs))" by auto
    then show ?thesis by blast
  qed
qed

lemma removeLoop_trace:
  "removeLoop cs w = (r, w') \<Longrightarrow> \<exists>k. trace w' = trace w @ map EvRemove (take k cs)"
proof (induction cs arbitrary: w)
  case Nil
  then show ?case by simp
next
  case (Cons c cs)
  show ?case
  proof (cases "fault w (trace w @ [EvRemove c])")
    case (Some e)
    with Cons.prems have "trace w' = trace w @ map EvRemove (take 1 (c # cs))"
      by (auto simp: Remove_eq)
    then show ?thesis by blast
  next
    case None
    with Cons.prems have rec: "removeLoop cs
        (w\<lparr>trace := trace w @ [EvRemove c],
           containers := filter (\<lambda>x. ID x \<noteq> ID c) (containers w)\<rparr>) = (r, w')"
      by (simp add: Remove_eq)
    from Cons.IH [OF rec] obtain k where
      "trace w' = trace w @ map EvRemove (take (Suc k) (c # cs))" by auto
    then show ?thesis by blast
  qed
qed

lemma removeLoop_success:
  "removeLoop cs w = (None, w') \<Longrightarrow>
     w' = w\<lparr>trace := trace w @ map EvRemove cs,
            containers := filter (\<lambda>x. ID x \<notin> ID ` set cs) (containers w)\<rparr>"
proof (induction cs arbitrary: w)
  case Nil
  then show ?case by simp
next
  case (Cons c cs)
  from Cons.prems obtain w1 where
    s: "Remove c w = (None, w1)" and rec: "removeLoop cs w1 = (None, w')"
    by (auto split: prod.splits option.splits)
  from s have w1: "w1 = w\<lparr>trace := trace w @ [EvRemove c],
                          containers := filter (\<lambda>x. ID x \<noteq> ID c) (containers w)\<rparr>"
    by (auto simp: Remove_eq split: option.splits)
  from Cons.IH [OF rec] show ?case
    by (simp add: w1 conj_commute)
qed

lemma GetContainersByDeployment_eq:
  "GetContainersByDeployment deployment w =
     (case fault w (trace w @ [EvGetContainersByDeployment deployment]) of
        Some err \<Rightarrow> (Inl err, w\<lparr>trace := trace w @ [EvGetContainersByDeployment deployment]\<rparr>)
      | None \<Rightarrow> (Inr (ofDeployment deployment w),
                 w\<lparr>trace := trace w @ [EvGetContainersByDeployment deployment]\<rparr>))"
  by (simp add: GetContainersByDeployment_def call_eq ofDeployment_def split: option.splits)

lemma Run_Setup_success:
  assumes "Run_Setup a w = (None, a1, w1)"
  shows "a1 = a\<lparr>ContainersToRemove := ofDeployment (Name (Config a)) w\<rparr> \<and>
         containers w1 = containers w \<and> next_id w1 = next_id w \<and>
         trace w1 = trace w @ [EvCreateSecretsCollection (Name (Config a)),
                               EvCreateJobsCollection (Name (Config a)),
                               EvGetContainersByDeployment (Name (Config a))]"
  using assms
  by (auto simp: Run_Setup_def CreateSecretsCollection_def CreateJobsCollection_def
      GetContainersByDeployment_def call_eq Let_def ofDeployment_def
      split: option.splits)

lemma Run_Run_success:
  assumes "Run_Run a w = (None, w2)"
  defines "config \<equiv> Config a"
  defines "new \<equiv> newContainers config (next_id w) (nat (Scale config))"
  shows "w2 = w\<lparr>trace := trace w @ [EvPullImage (Registry config) (Image config) (Tag config)]
                     @ replicate (nat (Scale config)) (EvContainerCreate config)
                     @ map EvStart new @ [EvRetriableContainerHealthCheck new 10],
                containers := startAll new (containers w @ new),
                next_id := next_id w + nat (Scale config)\<rparr>"
proof -
  let ?t1 = "trace w @ [EvPullImage (Registry config) (Image config) (Tag config)]"
  let ?w1 = "w\<lparr>trace := ?t1\<rparr>"
  have pull: "GetClient_PullImage (Registry config) (Image config) (Tag config) w
                = (fault w ?t1, ?w1)"
    by (simp add: GetClient_PullImage_def call_eq)
  obtain r1 w2' where cl: "createLoop 0 (Scale config) config [] ?w1 = (r1, w2')"
    by (cases "createLoop 0 (Scale config) config [] ?w1")
  have run: "Run_Run a w =
      (case fault w ?t1 of
         Some err \<Rightarrow> (Some err, ?w1)
       | None \<Rightarrow>
           (case r1 of
              Inl err \<Rightarrow> (Some err, w2')
            | Inr cs \<Rightarrow>
                (case startLoop cs [] w2' of
                   (Inl err, w3) \<Rightarrow> (Some err, w3)
                 | (Inr st, w3) \<Rightarrow> RetriableContainerHealthCheck st 10 w3)))"
    unfolding Run_Run_def Let_def config_def [symmetric] pull
    by (simp add: cl split: option.splits sum.splits)
  from assms(1) run have f: "fault w ?t1 = None"
    by (cases "fault w ?t1") simp_all
  from assms(1) run f obtain cs where r1: "r1 = Inr cs"
    by (cases r1) simp_all
  obtain r2 w3 where sl: "startLoop cs [] w2' = (r2, w3)"
    by (cases "startLoop cs [] w2'")
  from assms(1) run f r1 sl obtain st where r2: "r2 = Inr st"
    by (cases r2) simp_all
  from assms(1) run f r1 sl r2 have hc: "RetriableContainerHealthCheck st 10 w3 = (None, w2)"
    by simp
  from createLoop_success [OF cl [unfolded r1]] have cs: "cs = new"
    and w2': "w2' = ?w1\<lparr>trace := trace ?w1 @ replicate (nat (Scale config)) (EvContainerCreate config),
            containers := containers ?w1 @ new,
            next_id := next_id ?w1 + nat (Scale config)\<rparr>"
    by (simp_all add: new_def)
  from startLoop_success [OF sl [unfolded r2]] have st: "st = new"
    and w3: "w3 = w2'\<lparr>trace := trace w2' @ map EvStart new,
                      containers := startAll new (containers w2')\<rparr>"
    by (simp_all add: cs)
  from hc have "w2 = w3\<lparr>trace := trace w3 @ [EvRetriableContainerHealthCheck new 10]\<rparr>"
    by (simp add: RetriableContainerHealthCheck_def call_eq st)
  then show ?thesis by (simp add: w3 w2')
qed

lemma startAll_fresh:
  assumes "list_all (\<lambda>c. ID c < base) old"
  shows "startAll (newContainers config base n) (old @ newContainers config base n)
           = old @ map started (newContainers config base n)"
proof -
  have "\<And>x. x \<in> set old \<Longrightarrow> ID x \<notin> ID ` set (newContainers config base n)"
    using assms by (auto simp: list_all_iff newContainers_def)
  then have "startAll (newContainers config base n) old = old"
    by (simp add: startAll_def map_idI)
  then show ?thesis
    by (simp add: startAll_def)
qed

lemma survivors:
  assumes "list_all (\<lambda>c. ID c < base) old"
  shows "filter (\<lambda>c. Deployment c = Name config)
           (filter (\<lambda>x. ID x \<notin> ID ` set (filter (\<lambda>c. Deployment c = Name config) old))
              (old @ map started (newContainers config base n)))
         = map started (newContainers config base n)"
proof -
  have old: "filter (\<lambda>c. Deployment c = Name config)
           (filter (\<lambda>x. ID x \<notin> ID ` set (filter (\<lambda>c. Deployment c = Name config) old)) old) = []"
    by (auto simp: filter_empty_conv)
  have new: "\<And>x. x \<in> set (map started (newContainers config base n)) \<Longrightarrow>
      ID x \<notin> ID ` set (filter (\<lambda>c. Deployment c = Name config) old) \<and> Deployment x = Name config"
    using assms by (auto simp: list_all_iff newContainers_def started_def)
  have "filter (\<lambda>c. Deployment c = Name config)
           (filter (\<lambda>x. ID x \<notin> ID ` set (filter (\<lambda>c. Deployment c = Name config) old))
              (map started (newContainers config base n)))
         = map started (newContainers config base n)"
    using new by (simp add: filter_id_conv)
  with old show ?thesis by simp
qed

lemma createContainers_one:
  assumes "args ''config'' = Some (ArgConfig cfg)"
    and "createContainers args v = (None, args', v')"
  shows "args' = args(''newContainers'' \<mapsto> ArgContainers (newContainers cfg (next_id v) 1)) \<and>
         trace v' = trace v @ [EvContainerCreate cfg] \<and>
         containers v' = containers v @ newContainers cfg (next_id v) 1"
proof -
  obtain r1 v1 where cl: "createLoop 0 1 cfg [] v = (r1, v1)"
    by (cases "createLoop 0 1 cfg [] v")
  from assms cl obtain cs where r1: "r1 = Inr cs"
    by (cases r1) (simp_all add: createContainers_def Let_def)
  from assms cl r1 have res: "args' = args(''newContainers'' \<mapsto> ArgContainers cs)" "v' = v1"
    by (simp_all add: createContainers_def Let_def)
  from createLoop_success [OF cl [unfolded r1]] res show ?thesis by simp
qed

lemmas world_ops = CreateSecretsCollection_def CreateJobsCollection_def
  GetContainersByDeployment_def GetClient_PullImage_def ContainerCreate'_def Start_def
  Remove_def RetriableContainerHealthCheck_def call_eq Let_def setState_def

lemmas fixtures = liveWorld_def storeWithWeb_def emptyWorld_def webConfig_def webArgs_def
  quietWorld_def

subsection \<open>The job of Run\<close>

text \<open>
  C1, as amended. In package deployment: from a runtime whose containers are all older
  than its next identity, when \<open>Setup\<close>, \<open>Run\<close> and \<open>Finally\<close> of the job of \<open>Run\<close>
  each succeed once in this order, the run phase is one \<open>PullImage\<close> of the
  configuration's registry, image and tag, then one \<open>ContainerCreate\<close> per
  \<open>i\<close> in \<open>[0, Scale)\<close>, then \<open>Start\<close> of each container created, in order, then the
  retriable health check of exactly these containers with 10 retries; and afterwards
  the containers of the deployment are exactly the \<open>Scale\<close> new ones (none when \<open>Scale\<close>
  is negative), all running. In the workflow of package service, \<open>createContainers\<close>
  creates exactly one container whatever the configuration says: its scale is the
  constant 1.
\<close>

theorem Run_creates_Scale_containers:
  assumes "freshIDs w"
    and "Run_Setup a w = (None, a1, w1)"
    and "Run_Run a1 w1 = (None, w2)"
    and "Run_Finally a1 w2 = (None, w3)"
    and "args ''config'' = Some (ArgConfig cfg)"
    and "createContainers args v = (None, args', v')"
  shows "trace w2 = trace w1
             @ [EvPullImage (Registry (Config a)) (Image (Config a)) (Tag (Config a))]
             @ replicate (nat (Scale (Config a))) (EvContainerCreate (Config a))
             @ map EvStart (newContainers (Config a) (next_id w) (nat (Scale (Config a))))
             @ [EvRetriableContainerHealthCheck
                  (newContainers (Config a) (next_id w) (nat (Scale (Config a)))) 10] \<and>
         ofDeployment (Name (Config a)) w3
           = map started (newContainers (Config a) (next_id w) (nat (Scale (Config a)))) \<and>
         length (ofDeployment (Name (Config a)) w3) = nat (Scale (Config a)) \<and>
         list_all (\<lambda>c. State c = Running) (ofDeployment (Name (Config a)) w3) \<and>
         args' ''newContainers'' = Some (ArgContainers (newContainers cfg (next_id v) 1)) \<and>
         trace v' = trace v @ [EvContainerCreate cfg]"
proof -
  let ?config = "Config a"
  let ?new = "newContainers ?config (next_id w) (nat (Scale ?config))"
  from Run_Setup_success [OF assms(2)]
  have a1: "a1 = a\<lparr>ContainersToRemove := ofDeployment (Name ?config) w\<rparr>"
    and c1: "containers w1 = containers w" and n1: "next_id w1 = next_id w"
    by simp_all
  have cfg1: "Config a1 = ?config" by (simp add: a1)
  from Run_Run_success [OF assms(3)]
  have w2: "w2 = w1\<lparr>trace := trace w1 @ [EvPullImage (Registry ?config) (Image ?config) (Tag ?config)]
                     @ replicate (nat (Scale ?config)) (EvContainerCreate ?config)
                     @ map EvStart ?new @ [EvRetriableContainerHealthCheck ?new 10],
                containers := startAll ?new (containers w @ ?new),
                next_id := next_id w + nat (Scale ?config)\<rparr>"
    by (simp add: cfg1 c1 n1)
  then have tr: "trace w2 = trace w1 @ [EvPullImage (Registry ?config) (Image ?config) (Tag ?config)]
                     @ replicate (nat (Scale ?config)) (EvContainerCreate ?config)
                     @ map EvStart ?new @ [EvRetriableContainerHealthCheck ?new 10]" by simp
  from assms(1) have old: "list_all (\<lambda>c. ID c < next_id w) (containers w)"
    by (simp add: freshIDs_def)
  from w2 startAll_fresh [OF old, of ?config "nat (Scale ?config)"]
  have c2: "containers w2 = containers w @ map started ?new" by simp
  from removeLoop_success [of "ofDeployment (Name ?config) w" w2 w3] assms(4)
  have "containers w3 = filter (\<lambda>x. ID x \<notin> ID ` set (ofDeployment (Name ?config) w)) (containers w2)"
    by (simp add: Run_Finally_def a1)
  with c2 survivors [OF old, of ?config "nat (Scale ?config)"]
  have res: "ofDeployment (Name ?config) w3 = map started ?new"
    by (simp add: ofDeployment_def)
  then have len: "length (ofDeployment (Name ?config) w3) = nat (Scale ?config)"
    by simp
  from res have run: "list_all (\<lambda>c. State c = Running) (ofDeployment (Name ?config) w3)"
    by (simp add: list_all_iff started_def)
  from createContainers_one [OF assms(5,6)]
  have one: "args' ''newContainers'' = Some (ArgContainers (newContainers cfg (next_id v) 1))"
    and tv: "trace v' = trace v @ [EvContainerCreate cfg]" by simp_all
  from tr res len run one tv show ?thesis by blast
qed

theorem Run_creates_Scale_containers_witness:
  "freshIDs liveWorld \<and>
   Run_Setup webArgs liveWorld =
     (None, webArgs\<lparr>ContainersToRemove := [\<lparr>ID = 0, Deployment = ''web'', State = Running\<rparr>]\<rparr>,
      liveWorld\<lparr>trace := [EvCreateSecretsCollection ''web'', EvCreateJobsCollection ''web'',
                          EvGetContainersByDeployment ''web'']\<rparr>) \<and>
   fst (Run_Run (webArgs\<lparr>ContainersToRemove := [\<lparr>ID = 0, Deployment = ''web'', State = Running\<rparr>]\<rparr>)
      (liveWorld\<lparr>trace := [EvCreateSecretsCollection ''web'', EvCreateJobsCollection ''web'',
                          EvGetContainersByDeployment ''web'']\<rparr>)) = None \<and>
   fst (Run_Finally (webArgs\<lparr>ContainersToRemove := [\<lparr>ID = 0, Deployment = ''web'', State = Running\<rparr>]\<rparr>)
      (snd (Run_Run (webArgs\<lparr>ContainersToRemove := [\<lparr>ID = 0, Deployment = ''web'', State = Running\<rparr>]\<rparr>)
         (liveWorld\<lparr>trace := [EvCreateSecretsCollection ''web'', EvCreateJobsCollection ''web'',
                          EvGetContainersByDeployment ''web'']\<rparr>)))) = None \<and>
   ofDeployment ''web''
     (snd (Run_Finally (webArgs\<lparr>ContainersToRemove := [\<lparr>ID = 0, Deployment = ''web'', State = Running\<rparr>]\<rparr>)
      (snd (Run_Run (webArgs\<lparr>ContainersToRemove := [\<lparr>ID = 0, Deployment = ''web'', State = Running\<rparr>]\<rparr>)
         (liveWorld\<lparr>trace := [EvCreateSecretsCollection ''web'', EvCreateJobsCollection ''web'',
                          EvGetContainersByDeployment ''web'']\<rparr>)))))
     = [\<lparr>ID = 1, Deployment = ''web'', State = Running\<rparr>,
        \<lparr>ID = 2, Deployment = ''web'', State = Running\<rparr>]"
proof -
  let ?old = "\<lparr>ID = 0, Deployment = ''web'', State = Running\<rparr>"
  let ?a1 = "webArgs\<lparr>ContainersToRemove := [?old]\<rparr>"
  let ?w1 = "liveWorld\<lparr>trace := [EvCreateSecretsCollection ''web'', EvCreateJobsCollection ''web'',
                          EvGetContainersByDeployment ''web'']\<rparr>"
  let ?args = "[''config'' \<mapsto> ArgConfig webConfig]"
  have f: "freshIDs liveWorld" by (simp add: freshIDs_def fixtures)
  have s1: "Run_Setup webArgs liveWorld = (None, ?a1, ?w1)"
    by (simp add: Run_Setup_def world_ops fixtures)
  have r2: "fst (Run_Run ?a1 ?w1) = None"
    by (simp add: Run_Run_def createLoop.simps world_ops fixtures)
  then have s2: "Run_Run ?a1 ?w1 = (None, snd (Run_Run ?a1 ?w1))"
    by (metis prod.collapse)
  have r3: "fst (Run_Finally ?a1 (snd (Run_Run ?a1 ?w1))) = None"
    by (simp add: Run_Finally_def Run_Run_def createLoop.simps world_ops fixtures)
  then have s3: "Run_Finally ?a1 (snd (Run_Run ?a1 ?w1))
                   = (None, snd (Run_Finally ?a1 (snd (Run_Run ?a1 ?w1))))"
    by (metis prod.collapse)
  have c0: "?args ''config'' = Some (ArgConfig webConfig)" by simp
  have r4: "fst (createContainers ?args quietWorld) = None"
    by (simp add: createContainers_def createLoop.simps world_ops fixtures)
  then have s4: "createContainers ?args quietWorld
     = (None, fst (snd (createContainers ?args quietWorld)), snd (snd (createContainers ?args quietWorld)))"
    by (metis prod.collapse)
  from Run_creates_Scale_containers [OF f s1 s2 s3 c0 s4]
  have "ofDeployment (Name (Config webArgs)) (snd (Run_Finally ?a1 (snd (Run_Run ?a1 ?w1))))
          = map started (newContainers (Config webArgs) (next_id liveWorld) (nat (Scale (Config webArgs))))"
    by blast
  then have "ofDeployment ''web'' (snd (Run_Finally ?a1 (snd (Run_Run ?a1 ?w1))))
          = [\<lparr>ID = 1, Deployment = ''web'', State = Running\<rparr>,
             \<lparr>ID = 2, Deployment = ''web'', State = Running\<rparr>]"
    by (simp add: fixtures newContainers_def started_def upt_rec [of 0] upt_rec [of 1] numeral_2_eq_2)
  with f s1 r2 r3 show ?thesis by blast
qed

text \<open>
  C1 as stated fails on the workflow step: for a configuration of scale 2,
  \<open>createContainers\<close> succeeds after a single \<open>ContainerCreate\<close>, and one container exists.
\<close>

theorem createContainers_ignores_scale_counterexample:
  "Scale webConfig = 2 \<and>
   fst (createContainers [''config'' \<mapsto> ArgConfig webConfig] quietWorld) = None \<and>
   fst (snd (createContainers [''config'' \<mapsto> ArgConfig webConfig] quietWorld)) ''newContainers''
     = Some (ArgContainers [\<lparr>ID = 0, Deployment = ''web'', State = Created\<rparr>]) \<and>
   trace (snd (snd (createContainers [''config'' \<mapsto> ArgConfig webConfig] quietWorld)))
     = [EvContainerCreate webConfig] \<and>
   length (containers (snd (snd (createContainers [''config'' \<mapsto> ArgConfig webConfig] quietWorld)))) = 1"
  by (simp add: createContainers_def createLoop.simps world_ops fixtures)

subsection \<open>The job of RestartContainers\<close>

lemma noPullSinceI:
  "trace w' = trace w @ evs \<Longrightarrow> filter isPull evs = [] \<Longrightarrow> noPullSince w w'"
  by (simp add: noPullSince_def)

lemma noPullSinceD:
  assumes "noPullSince w w'"
  shows "\<exists>evs. trace w' = trace w @ evs \<and> filter isPull evs = []"
proof -
  from assms have "trace w' = trace w @ drop (length (trace w)) (trace w')"
    by (metis append_take_drop_id noPullSince_def)
  moreover from assms have "filter isPull (drop (length (trace w)) (trace w')) = []"
    by (simp add: noPullSince_def)
  ultimately show ?thesis by blast
qed

lemma noPullSince_trans:
  assumes "noPullSince w w1" and "noPullSince w1 w2"
  shows "noPullSince w w2"
proof -
  from noPullSinceD [OF assms(1)] obtain e1 where
    1: "trace w1 = trace w @ e1" and p1: "filter isPull e1 = []" by blast
  from noPullSinceD [OF assms(2)] obtain e2 where
    2: "trace w2 = trace w1 @ e2" and p2: "filter isPull e2 = []" by blast
  have "trace w2 = trace w @ (e1 @ e2)" by (simp add: 1 2)
  moreover have "filter isPull (e1 @ e2) = []" by (simp add: p1 p2)
  ultimately show ?thesis by (rule noPullSinceI)
qed

lemma createLoop_noPullSince:
  "createLoop i scale config acc w = (r, w') \<Longrightarrow> noPullSince w w'"
  by (drule createLoop_noPull) (auto intro!: noPullSinceI)

lemma startLoop_noPullSince:
  "startLoop cs acc w = (r, w') \<Longrightarrow> noPullSince w w'"
  by (drule startLoop_trace) (auto intro!: noPullSinceI simp: filter_empty_conv)

lemma removeLoop_noPullSince:
  "removeLoop cs w = (r, w') \<Longrightarrow> noPullSince w w'"
  by (drule removeLoop_trace) (auto intro!: noPullSinceI simp: filter_empty_conv)

lemma healthCheck_noPullSince:
  "RetriableContainerHealthCheck cs n w = (r, w') \<Longrightarrow> noPullSince w w'"
  by (auto simp: RetriableContainerHealthCheck_def call_eq intro!: noPullSinceI)

lemma RestartContainers_Setup_eq:
  "RestartContainers_Setup a w =
     (case fault w (trace w @ [EvGetContainersByDeployment (Name (Config a))]) of
        Some err \<Rightarrow> (Some err, a, w\<lparr>trace := trace w @ [EvGetContainersByDeployment (Name (Config a))]\<rparr>)
      | None \<Rightarrow> (None, a\<lparr>ContainersToRemove := ofDeployment (Name (Config a)) w\<rparr>,
                 w\<lparr>trace := trace w @ [EvGetContainersByDeployment (Name (Config a))]\<rparr>))"
  by (simp add: RestartContainers_Setup_def GetContainersByDeployment_eq Let_def
      split: option.splits)

lemma RestartContainers_Setup_noPull:
  "RestartContainers_Setup a w = (r, a1, w1) \<Longrightarrow>
     noPullSince w w1 \<and> Config a1 = Config a \<and>
     (r = None \<longrightarrow> a1 = a\<lparr>ContainersToRemove := ofDeployment (Name (Config a)) w\<rparr>)"
  by (auto simp: RestartContainers_Setup_eq split: option.splits intro!: noPullSinceI)

lemma RestartContainers_Run_unfold:
  assumes cl: "createLoop 0 (Scale (Config a)) (Config a) [] w = (r1, w1)"
  shows "RestartContainers_Run a w =
      (case r1 of
         Inl err \<Rightarrow> (Some err, w1)
       | Inr cs \<Rightarrow>
           (case startLoop cs [] w1 of
              (Inl err, w2) \<Rightarrow> (Some err, w2)
            | (Inr st, w2) \<Rightarrow> RetriableContainerHealthCheck st 10 w2))"
  unfolding RestartContainers_Run_def Let_def
  by (simp add: cl split: sum.splits)

lemma RestartContainers_Run_noPull:
  assumes "RestartContainers_Run a w = (r, w')"
  shows "noPullSince w w'"
proof -
  obtain r1 w1 where cl: "createLoop 0 (Scale (Config a)) (Config a) [] w = (r1, w1)"
    by (cases "createLoop 0 (Scale (Config a)) (Config a) [] w")
  note run = RestartContainers_Run_unfold [OF cl]
  from cl have n1: "noPullSince w w1" by (rule createLoop_noPullSince)
  show ?thesis
  proof (cases r1)
    case (Inl err)
    with assms run n1 show ?thesis by simp
  next
    case (Inr cs)
    obtain r2 w2 where sl: "startLoop cs [] w1 = (r2, w2)"
      by (cases "startLoop cs [] w1")
    from sl have n2: "noPullSince w1 w2" by (rule startLoop_noPullSince)
    show ?thesis
    proof (cases r2)
      case (Inl err)
      with assms run Inr sl have "w' = w2" by simp
      with n1 n2 show ?thesis by (blast intro: noPullSince_trans)
    next
      case st: (Inr st)
      with assms run Inr sl have "RetriableContainerHealthCheck st 10 w2 = (r, w')" by simp
      then have "noPullSince w2 w'" by (rule healthCheck_noPullSince)
      with n1 n2 show ?thesis by (blast intro: noPullSince_trans)
    qed
  qed
qed

lemma RestartContainers_Run_success:
  assumes "RestartContainers_Run a w = (None, w2)"
  defines "config \<equiv> Config a"
  defines "new \<equiv> newContainers config (next_id w) (nat (Scale config))"
  shows "w2 = w\<lparr>trace := trace w @ replicate (nat (Scale config)) (EvContainerCreate config)
                     @ map EvStart new @ [EvRetriableContainerHealthCheck new 10],
                containers := startAll new (containers w @ new),
                next_id := next_id w + nat (Scale config)\<rparr>"
proof -
  obtain r1 w1 where cl: "createLoop 0 (Scale config) config [] w = (r1, w1)"
    by (cases "createLoop 0 (Scale config) config [] w")
  note run = RestartContainers_Run_unfold [OF cl [unfolded config_def]]
  from assms(1) run obtain cs where r1: "r1 = Inr cs"
    by (cases r1) simp_all
  obtain r2 w3 where sl: "startLoop cs [] w1 = (r2, w3)"
    by (cases "startLoop cs [] w1")
  from assms(1) run r1 sl obtain st where r2: "r2 = Inr st"
    by (cases r2) simp_all
  from assms(1) run r1 sl r2 have hc: "RetriableContainerHealthCheck st 10 w3 = (None, w2)"
    by simp
  from createLoop_success [OF cl [unfolded r1]] have cs: "cs = new"
    and w1: "w1 = w\<lparr>trace := trace w @ replicate (nat (Scale config)) (EvContainerCreate config),
            containers := containers w @ new,
            next_id := next_id w + nat (Scale config)\<rparr>"
    by (simp_all add: new_def)
  from startLoop_success [OF sl [unfolded r2]] have st: "st = new"
    and w3: "w3 = w1\<lparr>trace := trace w1 @ map EvStart new,
                      containers := startAll new (containers w1)\<rparr>"
    by (simp_all add: cs)
  from hc have "w2 = w3\<lparr>trace := trace w3 @ [EvRetriableContainerHealthCheck new 10]\<rparr>"
    by (simp add: RetriableContainerHealthCheck_def call_eq st)
  then show ?thesis by (simp add: w3 w1)
qed

text \<open>
  C8. Whatever the environment answers, and whether they succeed or fail, the three
  phases of a restart job add no \<open>PullImage\<close> to the trace. A successful \<open>Setup\<close> stores
  the deployment's current containers in \<open>ContainersToRemove\<close> (the configuration stays
  as it is); a successful \<open>Run\<close> is \<open>Scale\<close> calls of \<open>ContainerCreate\<close> with that
  configuration, \<open>Start\<close> of each container created, and the health check of these
  containers, and nothing else.
\<close>

theorem Restart_never_pulls:
  assumes s1: "jobSetup (RestartContainersJobArgs a) w = (r1, args1, w1)"
    and s2: "jobRun args1 w1 = (r2, w2)"
    and s3: "jobFinally args1 w2 = (r3, w3)"
  shows "noPullSince w w1 \<and> noPullSince w1 w2 \<and> noPullSince w2 w3 \<and> noPullSince w w3 \<and>
         (r1 = None \<longrightarrow>
            args1 = RestartContainersJobArgs
                      (a\<lparr>ContainersToRemove := ofDeployment (Name (Config a)) w\<rparr>)) \<and>
         (r2 = None \<longrightarrow>
            trace w2 = trace w1 @ replicate (nat (Scale (Config a))) (EvContainerCreate (Config a))
               @ map EvStart (newContainers (Config a) (next_id w1) (nat (Scale (Config a))))
               @ [EvRetriableContainerHealthCheck
                    (newContainers (Config a) (next_id w1) (nat (Scale (Config a)))) 10])"
proof -
  from s1 obtain a1 where a1: "args1 = RestartContainersJobArgs a1"
    and su: "RestartContainers_Setup a w = (r1, a1, w1)"
    by (auto split: prod.splits)
  from RestartContainers_Setup_noPull [OF su]
  have n1: "noPullSince w w1" and cfg: "Config a1 = Config a"
    and snap: "r1 = None \<longrightarrow> a1 = a\<lparr>ContainersToRemove := ofDeployment (Name (Config a)) w\<rparr>"
    by simp_all
  from s2 a1 have rn: "RestartContainers_Run a1 w1 = (r2, w2)" by simp
  then have n2: "noPullSince w1 w2" by (rule RestartContainers_Run_noPull)
  from s3 a1 have "removeLoop (ContainersToRemove a1) w2 = (r3, w3)"
    by (simp add: RestartContainers_Finally_def)
  then have n3: "noPullSince w2 w3" by (rule removeLoop_noPullSince)
  have ok: "trace w2 = trace w1 @ replicate (nat (Scale (Config a))) (EvContainerCreate (Config a))
               @ map EvStart (newContainers (Config a) (next_id w1) (nat (Scale (Config a))))
               @ [EvRetriableContainerHealthCheck
                    (newContainers (Config a) (next_id w1) (nat (Scale (Config a)))) 10]"
    if "r2 = None"
    using RestartContainers_Run_success [of a1 w1 w2] rn that by (simp add: cfg)
  from n1 n2 n3 have "noPullSince w w3" by (blast intro: noPullSince_trans)
  with n1 n2 n3 snap a1 ok show ?thesis by simp
qed

theorem Restart_never_pulls_witness:
  "jobSetup (RestartContainersJobArgs webArgs) liveWorld =
     (None,
      RestartContainersJobArgs
        (webArgs\<lparr>ContainersToRemove := [\<lparr>ID = 0, Deployment = ''web'', State = Running\<rparr>]\<rparr>),
      liveWorld\<lparr>trace := [EvGetContainersByDeployment ''web'']\<rparr>) \<and>
   trace (snd (jobRun
      (RestartContainersJobArgs
        (webArgs\<lparr>ContainersToRemove := [\<lparr>ID = 0, Deployment = ''web'', State = Running\<rparr>]\<rparr>))
      (liveWorld\<lparr>trace := [EvGetContainersByDeployment ''web'']\<rparr>)))
     = [EvGetContainersByDeployment ''web'',
        EvContainerCreate webConfig, EvContainerCreate webConfig,
        EvStart \<lparr>ID = 1, Deployment = ''web'', State = Created\<rparr>,
        EvStart \<lparr>ID = 2, Deployment = ''web'', State = Created\<rparr>,
        EvRetriableContainerHealthCheck
          [\<lparr>ID = 1, Deployment = ''web'', State = Created\<rparr>,
           \<lparr>ID = 2, Deployment = ''web'', State = Created\<rparr>] 10] \<and>
   noPullSince liveWorld
     (snd (jobFinally
        (RestartContainersJobArgs
          (webArgs\<lparr>ContainersToRemove := [\<lparr>ID = 0, Deployment = ''web'', State = Running\<rparr>]\<rparr>))
        (snd (jobRun
          (RestartContainersJobArgs
            (webArgs\<lparr>ContainersToRemove := [\<lparr>ID = 0, Deployment = ''web'', State = Running\<rparr>]\<rparr>))
          (liveWorld\<lparr>trace := [EvGetContainersByDeployment ''web'']\<rparr>)))))"
proof -
  let ?args1 = "RestartContainersJobArgs
        (webArgs\<lparr>ContainersToRemove := [\<lparr>ID = 0, Deployment = ''web'', State = Running\<rparr>]\<rparr>)"
  let ?w1 = "liveWorld\<lparr>trace := [EvGetContainersByDeployment ''web'']\<rparr>"
  have s1: "jobSetup (RestartContainersJobArgs webArgs) liveWorld = (None, ?args1, ?w1)"
    by (simp add: RestartContainers_Setup_def world_ops fixtures)
  have r2: "fst (jobRun ?args1 ?w1) = None"
    by (simp add: RestartContainers_Run_def createLoop.simps world_ops fixtures)
  have s2: "jobRun ?args1 ?w1 = (fst (jobRun ?args1 ?w1), snd (jobRun ?args1 ?w1))"
    by simp
  have s3: "jobFinally ?args1 (snd (jobRun ?args1 ?w1))
              = (fst (jobFinally ?args1 (snd (jobRun ?args1 ?w1))),
                 snd (jobFinally ?args1 (snd (jobRun ?args1 ?w1))))"
    by simp
  from Restart_never_pulls [OF s1 s2 s3] r2
  have np: "noPullSince liveWorld (snd (jobFinally ?args1 (snd (jobRun ?args1 ?w1))))"
    and tr: "trace (snd (jobRun ?args1 ?w1)) =
       trace ?w1 @ replicate (nat (Scale (Config webArgs))) (EvContainerCreate (Config webArgs))
         @ map EvStart (newContainers (Config webArgs) (next_id ?w1) (nat (Scale (Config webArgs))))
         @ [EvRetriableContainerHealthCheck
              (newContainers (Config webArgs) (next_id ?w1) (nat (Scale (Config webArgs)))) 10]"
    by blast+
  from tr have "trace (snd (jobRun ?args1 ?w1))
     = [EvGetContainersByDeployment ''web'',
        EvContainerCreate webConfig, EvContainerCreate webConfig,
        EvStart \<lparr>ID = 1, Deployment = ''web'', State = Created\<rparr>,
        EvStart \<lparr>ID = 2, Deployment = ''web'', State = Created\<rparr>,
        EvRetriableContainerHealthCheck
          [\<lparr>ID = 1, Deployment = ''web'', State = Created\<rparr>,
           \<lparr>ID = 2, Deployment = ''web'', State = Created\<rparr>] 10]"
    by (simp add: fixtures newContainers_def upt_rec [of 0] upt_rec [of 1] numeral_2_eq_2)
  with s1 np show ?thesis by blast
qed

subsection \<open>The finalize phase of Delete\<close>

lemma Delete_Finally_unfold:
  "Delete_Finally name w =
     (let t1 = trace w @ [EvDeleteSecretsCollection name];
          t2 = t1 @ [EvDeleteJobsCollection name];
          t3 = t2 @ [EvDeleteDeploymentConfig name];
          c1 = removeAll (''secrets:'' @ name) (collections w);
          c2 = removeAll (''jobs:'' @ name) c1
      in case fault w t1 of
           Some e \<Rightarrow> (Some e, w\<lparr>trace := t1\<rparr>, finalizeLog name 1 (Some e))
         | None \<Rightarrow>
             (case fault w t2 of
                Some e \<Rightarrow> (Some e, w\<lparr>trace := t2, collections := c1\<rparr>, finalizeLog name 2 (Some e))
              | None \<Rightarrow>
                  (case fault w t3 of
                     Some e \<Rightarrow> (Some e, w\<lparr>trace := t3, collections := c2\<rparr>,
                                finalizeLog name 3 (Some e))
                   | None \<Rightarrow>
                       (None, w\<lparr>trace := t3, collections := c2,
                          deployments := filter (\<lambda>kv. fst kv \<noteq> name) (deployments w)\<rparr>,
                        finalizeLog name 3 None))))"
  by (simp add: Delete_Finally_def DeleteSecretsCollection_def DeleteJobsCollection_def
      DeleteDeploymentConfig_def call_eq Let_def finalizeLog_def finalizeDebug_def
      finalizeErrorPrefix_def split: option.splits)

lemma map_of_filter_key: "map_of (filter (\<lambda>kv. fst kv \<noteq> k) xs) k = None"
  by (induction xs) auto

text \<open>
  C3, as amended. \<open>Finally\<close> of the delete job deletes the secrets collection, the
  jobs collection and the configuration in this order, each only if the deletion
  before it succeeded: it attempts \<open>k\<close> of them, between one and three, every attempt
  before the last succeeded, and it returns the answer to the last one. So the first
  failure ends the phase: it is returned, it is logged with \<open>Errorf\<close> after the debug
  lines of the attempts made, and no later deletion is attempted. The store is left
  with exactly the deletions that succeeded. When no error is returned all three were
  made, and collections and configuration are gone; when an error is returned the
  store still holds whatever configuration it held.
\<close>

theorem Delete_Finally_stops_at_first_failure:
  assumes "Delete_Finally name w = (r, w', lg)"
  shows "\<exists>k. 1 \<le> k \<and> k \<le> 3 \<and> trace w' = trace w @ take k (finalizeEvents name) \<and>
           (\<forall>j<k - 1. fault w (trace w @ take (Suc j) (finalizeEvents name)) = None) \<and>
           r = fault w (trace w') \<and>
           w' = (afterDeletions name (if r = None then k else k - 1) w)
                  \<lparr>trace := trace w @ take k (finalizeEvents name)\<rparr> \<and>
           lg = finalizeLog name k r \<and>
           (r = None \<longrightarrow> k = 3 \<and> map_of (deployments w') name = None \<and>
                ''secrets:'' @ name \<notin> set (collections w') \<and>
                ''jobs:'' @ name \<notin> set (collections w')) \<and>
           (r \<noteq> None \<longrightarrow> deployments w' = deployments w)"
proof (cases "fault w (trace w @ [EvDeleteSecretsCollection name])")
  case (Some e)
  with assms have "r = Some e" "w' = w\<lparr>trace := trace w @ [EvDeleteSecretsCollection name]\<rparr>"
    "lg = finalizeLog name 1 (Some e)"
    by (auto simp: Delete_Finally_unfold Let_def)
  with Some show ?thesis
    by (intro exI[of _ 1]) (simp add: finalizeEvents_def afterDeletions_def)
next
  case f1: None
  show ?thesis
  proof (cases "fault w (trace w @ [EvDeleteSecretsCollection name, EvDeleteJobsCollection name])")
    case (Some e)
    with f1 assms have "r = Some e"
      "w' = w\<lparr>trace := trace w @ [EvDeleteSecretsCollection name, EvDeleteJobsCollection name],
               collections := removeAll (''secrets:'' @ name) (collections w)\<rparr>"
      "lg = finalizeLog name 2 (Some e)"
      by (auto simp: Delete_Finally_unfold Let_def)
    with Some f1 show ?thesis
      by (intro exI[of _ 2]) (simp add: finalizeEvents_def afterDeletions_def)
  next
    case f2: None
    have early: "fault w (trace w @ take (Suc j) (finalizeEvents name)) = None" if "j < 3 - 1" for j
    proof -
      from that have "j = 0 \<or> j = 1" by arith
      with f1 f2 show ?thesis by (auto simp: finalizeEvents_def)
    qed
    show ?thesis
    proof (cases "fault w (trace w @ finalizeEvents name)")
      case (Some e)
      with f1 f2 assms have res: "r = Some e"
        "w' = w\<lparr>trace := trace w @ finalizeEvents name,
                 collections := removeAll (''jobs:'' @ name)
                    (removeAll (''secrets:'' @ name) (collections w))\<rparr>"
        "lg = finalizeLog name 3 (Some e)"
        by (auto simp: Delete_Finally_unfold Let_def finalizeEvents_def)
      show ?thesis
      proof (intro exI[of _ 3] conjI)
        show "\<forall>j<3 - 1. fault w (trace w @ take (Suc j) (finalizeEvents name)) = None"
          using early by blast
      qed (use res Some in \<open>simp_all add: finalizeEvents_def afterDeletions_def\<close>)
    next
      case f3: None
      with f1 f2 assms have res: "r = None"
        "w' = w\<lparr>trace := trace w @ finalizeEvents name,
                 collections := removeAll (''jobs:'' @ name)
                    (removeAll (''secrets:'' @ name) (collections w)),
                 deployments := filter (\<lambda>kv. fst kv \<noteq> name) (deployments w)\<rparr>"
        "lg = finalizeLog name 3 None"
        by (auto simp: Delete_Finally_unfold Let_def finalizeEvents_def)
      show ?thesis
      proof (intro exI[of _ 3] conjI)
        show "\<forall>j<3 - 1. fault w (trace w @ take (Suc j) (finalizeEvents name)) = None"
          using early by blast
      qed (use res f3 in \<open>simp_all add: finalizeEvents_def afterDeletions_def map_of_filter_key\<close>)
    qed
  qed
qed

theorem Delete_Finally_stops_at_first_failure_witness:
  "Delete_Finally ''web'' (storeWithWeb secretsFault) =
     (Some (Error ''StoreIO''),
      (storeWithWeb secretsFault)\<lparr>trace := [EvDeleteSecretsCollection ''web'']\<rparr>,
      [Debugf ''removing secrets collection for deployment web'',
       Errorf ''unable to remove secrets collection StoreIO'']) \<and>
   Delete_Finally ''web'' (storeWithWeb jobsFault) =
     (Some (Error ''StoreIO''),
      (storeWithWeb jobsFault)
        \<lparr>trace := [EvDeleteSecretsCollection ''web'', EvDeleteJobsCollection ''web''],
         collections := [''jobs:web'']\<rparr>,
      [Debugf ''removing secrets collection for deployment web'',
       Debugf ''removing jobs collection for deployment web'',
       Errorf ''unable to remove jobs collection StoreIO'']) \<and>
   Delete_Finally ''web'' (storeWithWeb (\<lambda>_. None)) =
     (None,
      (storeWithWeb (\<lambda>_. None))
        \<lparr>trace := finalizeEvents ''web'', collections := [], deployments := []\<rparr>,
      finalizeDebug ''web'') \<and>
   (\<exists>k. 1 \<le> k \<and> k \<le> 3 \<and>
      [EvDeleteSecretsCollection ''web''] = take k (finalizeEvents ''web'') \<and>
      [Debugf ''removing secrets collection for deployment web'',
       Errorf ''unable to remove secrets collection StoreIO'']
        = finalizeLog ''web'' k (Some (Error ''StoreIO''))) \<and>
   (\<exists>k. 1 \<le> k \<and> k \<le> 3 \<and>
      [EvDeleteSecretsCollection ''web'', EvDeleteJobsCollection ''web'']
        = take k (finalizeEvents ''web'') \<and>
      (\<forall>j<k - 1. jobsFault (take (Suc j) (finalizeEvents ''web'')) = None)) \<and>
   (\<exists>k. finalizeEvents ''web'' = take k (finalizeEvents ''web'') \<and>
      finalizeDebug ''web'' = finalizeLog ''web'' k None)"
proof -
  let ?ws = "storeWithWeb secretsFault"
  let ?wj = "storeWithWeb jobsFault"
  let ?wn = "storeWithWeb (\<lambda>_. None)"
  have e1: "Delete_Finally ''web'' ?ws =
     (Some (Error ''StoreIO''), ?ws\<lparr>trace := [EvDeleteSecretsCollection ''web'']\<rparr>,
      [Debugf ''removing secrets collection for deployment web'',
       Errorf ''unable to remove secrets collection StoreIO''])"
    by (simp add: Delete_Finally_unfold Let_def storeWithWeb_def emptyWorld_def secretsFault_def
        finalizeLog_def finalizeDebug_def finalizeErrorPrefix_def)
  have e2: "Delete_Finally ''web'' ?wj =
     (Some (Error ''StoreIO''),
      ?wj\<lparr>trace := [EvDeleteSecretsCollection ''web'', EvDeleteJobsCollection ''web''],
           collections := [''jobs:web'']\<rparr>,
      [Debugf ''removing secrets collection for deployment web'',
       Debugf ''removing jobs collection for deployment web'',
       Errorf ''unable to remove jobs collection StoreIO''])"
    by (simp add: Delete_Finally_unfold Let_def storeWithWeb_def emptyWorld_def jobsFault_def
        finalizeLog_def finalizeDebug_def finalizeErrorPrefix_def)
  have e3: "Delete_Finally ''web'' ?wn =
     (None, ?wn\<lparr>trace := finalizeEvents ''web'', collections := [], deployments := []\<rparr>,
      finalizeDebug ''web'')"
    by (simp add: Delete_Finally_unfold Let_def storeWithWeb_def emptyWorld_def
        finalizeLog_def finalizeDebug_def finalizeEvents_def)
  have ts: "trace ?ws = []" "trace ?wj = []" "trace ?wn = []" "fault ?wj = jobsFault"
    by (simp_all add: storeWithWeb_def emptyWorld_def)
  from Delete_Finally_stops_at_first_failure [OF e1]
  have w1: "\<exists>k. 1 \<le> k \<and> k \<le> 3 \<and>
      [EvDeleteSecretsCollection ''web''] = take k (finalizeEvents ''web'') \<and>
      [Debugf ''removing secrets collection for deployment web'',
       Errorf ''unable to remove secrets collection StoreIO'']
        = finalizeLog ''web'' k (Some (Error ''StoreIO''))"
    by (auto simp add: ts)
  from Delete_Finally_stops_at_first_failure [OF e2]
  have w2: "\<exists>k. 1 \<le> k \<and> k \<le> 3 \<and>
      [EvDeleteSecretsCollection ''web'', EvDeleteJobsCollection ''web'']
        = take k (finalizeEvents ''web'') \<and>
      (\<forall>j<k - 1. jobsFault (take (Suc j) (finalizeEvents ''web'')) = None)"
    by (auto simp add: ts)
  from Delete_Finally_stops_at_first_failure [OF e3]
  have w3: "\<exists>k. finalizeEvents ''web'' = take k (finalizeEvents ''web'') \<and>
      finalizeDebug ''web'' = finalizeLog ''web'' k None"
    by (auto simp add: ts)
  from e1 e2 e3 w1 w2 w3 show ?thesis by blast
qed

text \<open>
  C3 as stated fails: when the deletion of the secrets collection fails, the error is
  logged and returned at once; the deletions of the jobs collection and of the
  configuration are not attempted, and both are still there.
\<close>

theorem Delete_Finally_not_best_effort_counterexample:
  "fst (Delete_Finally ''web'' (storeWithWeb secretsFault)) = Some (Error ''StoreIO'') \<and>
   trace (fst (snd (Delete_Finally ''web'' (storeWithWeb secretsFault))))
     = [EvDeleteSecretsCollection ''web''] \<and>
   collections (fst (snd (Delete_Finally ''web'' (storeWithWeb secretsFault))))
     = [''secrets:web'', ''jobs:web''] \<and>
   map fst (deployments (fst (snd (Delete_Finally ''web'' (storeWithWeb secretsFault))))) = [''web''] \<and>
   snd (snd (Delete_Finally ''web'' (storeWithWeb secretsFault)))
     = [Debugf ''removing secrets collection for deployment web'',
        Errorf ''unable to remove secrets collection StoreIO'']"
  by (simp add: Delete_Finally_unfold Let_def storeWithWeb_def emptyWorld_def secretsFault_def
      finalizeLog_def finalizeDebug_def finalizeErrorPrefix_def)

subsection \<open>The actions and the queue\<close>

text \<open>
  C4, as amended. \<open>Delete\<close> checks nothing: for every name, with or without a
  stored configuration, it returns no error, leaves the world as it is (the store is
  not even read), and starts one goroutine that is to enqueue one delete job for that
  name; when that goroutine is the only one and the queue has room, the job is queued.
\<close>

theorem Delete_never_validates:
  "fst (Delete deployment w p) = None \<and>
   fst (snd (Delete deployment w p)) = w \<and>
   snd (snd (Delete deployment w p)) =
     p\<lparr>uuids := Suc (uuids p), goroutines := goroutines p @ [deleteJob deployment p]\<rparr> \<and>
   (goroutines p = [] \<and> length (queue p) < capacity p \<longrightarrow>
      queue (runGoroutine (snd (snd (Delete deployment w p)))) = queue p @ [deleteJob deployment p])"
  by (simp add: Delete_def go_enqueue_def deleteJob_def runGoroutine_def enqueue_def Enqueue_def)

theorem Delete_never_validates_witness:
  "goroutines (idleProc 1024) = [] \<and> length (queue (idleProc 1024)) < capacity (idleProc 1024) \<and>
   fst (Delete ''web'' liveWorld (idleProc 1024)) = None \<and>
   fst (snd (Delete ''web'' liveWorld (idleProc 1024))) = liveWorld \<and>
   queue (runGoroutine (snd (snd (Delete ''web'' liveWorld (idleProc 1024)))))
     = [deleteJob ''web'' (idleProc 1024)]"
proof -
  have g: "goroutines (idleProc 1024) = []"
    and q: "length (queue (idleProc 1024)) < capacity (idleProc 1024)"
    and e: "queue (idleProc 1024) = []"
    by (simp_all add: idleProc_def)
  from Delete_never_validates [of "''web''" liveWorld "idleProc 1024"] g q
  have "fst (Delete ''web'' liveWorld (idleProc 1024)) = None"
    and "fst (snd (Delete ''web'' liveWorld (idleProc 1024))) = liveWorld"
    and "queue (runGoroutine (snd (snd (Delete ''web'' liveWorld (idleProc 1024)))))
           = queue (idleProc 1024) @ [deleteJob ''web'' (idleProc 1024)]"
    by blast+
  with g q e show ?thesis by simp
qed

text \<open>
  C4 as stated fails: for the name \<open>ghost\<close>, of which the store knows nothing,
  \<open>Delete\<close> returns no error, and once the goroutine has run the delete job is queued.
\<close>

theorem Delete_missing_deployment_counterexample:
  "map_of (deployments quietWorld) ''ghost'' = None \<and>
   fst (Delete ''ghost'' quietWorld (idleProc 1024)) = None \<and>
   queue (runGoroutine (snd (snd (Delete ''ghost'' quietWorld (idleProc 1024)))))
     = [\<lparr>job_ID = 0, job_Deployment = ''ghost'', job_Type = DeleteDeploymentAction,
        job_RetryPolicy = 1, job_Args = DeleteDeploymentJobArgs ''ghost''\<rparr>]"
  by (simp add: Delete_def go_enqueue_def quietWorld_def emptyWorld_def idleProc_def
      runGoroutine_def enqueue_def Enqueue_def)

lemma enqueue_full:
  "isFull p \<Longrightarrow>
     enqueue j p = p\<lparr>logged := logged p @ [''Error enqueuing deployment job QueueFull'']\<rparr>"
  by (simp add: enqueue_def Enqueue_def isFull_def)

lemma runGoroutine_full:
  assumes "isFull p"
  shows "queue (runGoroutine p) = queue p"
proof (cases "goroutines p")
  case Nil
  then show ?thesis by (simp add: runGoroutine_def)
next
  case (Cons j js)
  from assms have "isFull (p\<lparr>goroutines := js\<rparr>)" by (simp add: isFull_def)
  from enqueue_full [OF this, of j] Cons show ?thesis by (simp add: runGoroutine_def)
qed

lemma isFull_spawn:
  "isFull (go_enqueue j (p\<lparr>uuids := n\<rparr>)) = isFull p"
  by (simp add: isFull_def go_enqueue_def)

text \<open>
  C5, as amended. When the queue is full, \<open>enqueue\<close> drops the job and writes the
  error to the log; it has no result. The five actions return without looking at the
  queue: \<open>Delete\<close>, \<open>StartContainers\<close> and \<open>StopContainers\<close> return no error, \<open>Run\<close>
  and \<open>RestartContainers\<close> return an error only when the configuration cannot be
  loaded; and when the goroutine an action started runs, the queue is as before.
\<close>

theorem QueueFull_is_only_logged:
  assumes "isFull p"
  shows "queue (enqueue j p) = queue p \<and>
         logged (enqueue j p) = logged p @ [''Error enqueuing deployment job QueueFull''] \<and>
         fst (Delete deployment w p) = None \<and>
         fst (StartContainers deployment w p) = None \<and>
         fst (StopContainers deployment w p) = None \<and>
         fst (Run deployment w p) =
           (case fst (GetDeploymentConfig deployment w) of Inl err \<Rightarrow> Some err | Inr _ \<Rightarrow> None) \<and>
         fst (RestartContainers deployment w p) =
           (case fst (GetDeploymentConfig deployment w) of
              Inl err \<Rightarrow> Some (Error (''unable to get configuration for deployment '' @ deployment))
            | Inr _ \<Rightarrow> None) \<and>
         queue (runGoroutine (snd (snd (Run deployment w p)))) = queue p \<and>
         queue (runGoroutine (snd (snd (Delete deployment w p)))) = queue p \<and>
         queue (runGoroutine (snd (snd (StartContainers deployment w p)))) = queue p \<and>
         queue (runGoroutine (snd (snd (StopContainers deployment w p)))) = queue p \<and>
         queue (runGoroutine (snd (snd (RestartContainers deployment w p)))) = queue p"
proof -
  have spawn: "queue (runGoroutine (go_enqueue j' (p\<lparr>uuids := n\<rparr>))) = queue p" for j' n
    using runGoroutine_full [of "go_enqueue j' (p\<lparr>uuids := n\<rparr>)"] assms
    by (simp add: isFull_spawn) (simp add: go_enqueue_def)
  have same: "queue (runGoroutine p) = queue p"
    using assms by (rule runGoroutine_full)
  have 1: "queue (enqueue j p) = queue p"
    and 2: "logged (enqueue j p) = logged p @ [''Error enqueuing deployment job QueueFull'']"
    using assms by (simp_all add: enqueue_full)
  have 3: "fst (Delete deployment w p) = None" by (simp add: Delete_def)
  have 4: "fst (StartContainers deployment w p) = None" by (simp add: StartContainers_def)
  have 5: "fst (StopContainers deployment w p) = None" by (simp add: StopContainers_def)
  have 6: "fst (Run deployment w p) =
           (case fst (GetDeploymentConfig deployment w) of Inl err \<Rightarrow> Some err | Inr _ \<Rightarrow> None)"
    by (simp add: Run_def split: prod.splits sum.splits)
  have 7: "fst (RestartContainers deployment w p) =
           (case fst (GetDeploymentConfig deployment w) of
              Inl err \<Rightarrow> Some (Error (''unable to get configuration for deployment '' @ deployment))
            | Inr _ \<Rightarrow> None)"
    by (simp add: RestartContainers_def split: prod.splits sum.splits)
  have 8: "queue (runGoroutine (snd (snd (Run deployment w p)))) = queue p"
    using spawn same by (simp add: Run_def split: prod.splits sum.splits)
  have 9: "queue (runGoroutine (snd (snd (Delete deployment w p)))) = queue p"
    using spawn by (simp add: Delete_def)
  have 10: "queue (runGoroutine (snd (snd (StartContainers deployment w p)))) = queue p"
    using spawn by (simp add: StartContainers_def)
  have 11: "queue (runGoroutine (snd (snd (StopContainers deployment w p)))) = queue p"
    using spawn by (simp add: StopContainers_def)
  have 12: "queue (runGoroutine (snd (snd (RestartContainers deployment w p)))) = queue p"
    using spawn same by (simp add: RestartContainers_def split: prod.splits sum.splits)
  from 1 2 3 4 5 6 7 8 9 10 11 12 show ?thesis by blast
qed

theorem QueueFull_is_only_logged_witness:
  "isFull fullProc \<and>
   fst (Run ''web'' liveWorld fullProc) = None \<and>
   fst (RestartContainers ''web'' liveWorld fullProc) = None \<and>
   fst (Run ''ghost'' liveWorld fullProc) = Some (Error ''DeploymentMissing'') \<and>
   queue (runGoroutine (snd (snd (Run ''web'' liveWorld fullProc)))) = queue fullProc"
proof -
  have f: "isFull fullProc" by (simp add: isFull_def fullProc_def idleProc_def)
  have g: "fst (GetDeploymentConfig ''web'' liveWorld) = Inr webConfig"
    by (simp add: GetDeploymentConfig_def call_eq fixtures)
  have h: "fst (GetDeploymentConfig ''ghost'' liveWorld) = Inl (Error ''DeploymentMissing'')"
    by (simp add: GetDeploymentConfig_def call_eq fixtures)
  from QueueFull_is_only_logged [OF f, of _ "''web''" liveWorld] g
       QueueFull_is_only_logged [OF f, of _ "''ghost''" liveWorld] h f
  show ?thesis by simp
qed

text \<open>
  C5 as stated fails: with a full queue, \<open>Run\<close> of the stored deployment \<open>web\<close>
  returns no error; its goroutine then finds the queue full, the job of \<open>web\<close> is not
  queued, and the only trace of \<open>QueueFull\<close> is a line of the log.
\<close>

theorem Run_returns_nil_on_full_queue_counterexample:
  "isFull fullProc \<and>
   fst (Run ''web'' liveWorld fullProc) = None \<and>
   map job_Deployment (goroutines (snd (snd (Run ''web'' liveWorld fullProc)))) = [''web''] \<and>
   map job_Deployment (queue (runGoroutine (snd (snd (Run ''web'' liveWorld fullProc))))) = [''db''] \<and>
   goroutines (runGoroutine (snd (snd (Run ''web'' liveWorld fullProc)))) = [] \<and>
   logged (runGoroutine (snd (snd (Run ''web'' liveWorld fullProc))))
     = [''Error enqueuing deployment job QueueFull'']"
  by (simp add: isFull_def fullProc_def idleProc_def deleteJob_def Run_def GetDeploymentConfig_def
      call_eq fixtures go_enqueue_def runGoroutine_def enqueue_def Enqueue_def)

subsection \<open>The health check of new containers\<close>

lemma pollLoop_step:
  assumes "i \<le> p"
  shows "pollLoop p i c w =
     (if probePassed w (trace w @ [EvSleep (10 * i), EvOk c])
      then (None, w\<lparr>trace := trace w @ [EvSleep (10 * i), EvOk c]\<rparr>)
      else if i = p
      then (Some (errUnstable (fault w (trace w @ [EvSleep (10 * i), EvOk c]))),
            w\<lparr>trace := trace w @ [EvSleep (10 * i), EvOk c]\<rparr>)
      else pollLoop p (i + 1) c (w\<lparr>trace := trace w @ [EvSleep (10 * i), EvOk c]\<rparr>))"
  using assms
  by (subst pollLoop.simps)
     (auto simp add: Ok_def Sleep_def call_eq probePassed_def Let_def split: option.splits)

lemma pollLoop_attempts:
  assumes "pollLoop p i c w = (r, w')" and "i \<le> p"
  shows "\<exists>k. 1 \<le> k \<and> int k \<le> p + 1 - i \<and>
           w' = w\<lparr>trace := trace w @ attemptsFrom c i k\<rparr> \<and>
           (\<forall>j<k - 1. \<not> probePassed w (trace w @ attemptsFrom c i (Suc j))) \<and>
           (r = None \<longrightarrow> probePassed w (trace w')) \<and>
           (r \<noteq> None \<longrightarrow> int k = p + 1 - i \<and> \<not> probePassed w (trace w'))"
  using assms
proof (induction "nat (p - i)" arbitrary: i w)
  case 0
  then have ip: "i = p" by simp
  let ?t = "trace w @ [EvSleep (10 * i), EvOk c]"
  from "0.prems" ip pollLoop_step [of i p c w]
  have "w' = w\<lparr>trace := ?t\<rparr>" and "r = None \<longleftrightarrow> probePassed w ?t"
    by (auto split: if_splits)
  then show ?case using ip
    by (intro exI [of _ 1]) auto
next
  case (Suc n)
  then have lt: "i < p" and n: "n = nat (p - (i + 1))" by simp_all
  let ?t = "trace w @ [EvSleep (10 * i), EvOk c]"
  let ?w2 = "w\<lparr>trace := ?t\<rparr>"
  show ?case
  proof (cases "probePassed w ?t")
    case True
    with Suc.prems pollLoop_step [of i p c w]
    have "w' = ?w2" and "r = None" by auto
    with True lt show ?thesis
      by (intro exI [of _ 1]) auto
  next
    case False
    with Suc.prems lt pollLoop_step [of i p c w]
    have rec: "pollLoop p (i + 1) c ?w2 = (r, w')" by auto
    from lt have "i + 1 \<le> p" by simp
    from Suc.hyps(1) [OF n rec this] obtain k where
      k: "1 \<le> k" "int k \<le> p + 1 - (i + 1)"
         "w' = ?w2\<lparr>trace := trace ?w2 @ attemptsFrom c (i + 1) k\<rparr>"
         "\<forall>j<k - 1. \<not> probePassed ?w2 (trace ?w2 @ attemptsFrom c (i + 1) (Suc j))"
         "r = None \<longrightarrow> probePassed ?w2 (trace w')"
         "r \<noteq> None \<longrightarrow> int k = p + 1 - (i + 1) \<and> \<not> probePassed ?w2 (trace w')"
      by blast
    have pp: "\<And>t. probePassed ?w2 t = probePassed w t" by (simp add: probePassed_def)
    have early: "\<not> probePassed w (trace w @ attemptsFrom c i (Suc j))" if "j < Suc k - 1" for j
    proof (cases j)
      case 0
      with False show ?thesis by simp
    next
      case (Suc j')
      with that have "j' < k - 1" by simp
      with k(4) have "\<not> probePassed ?w2 (trace ?w2 @ attemptsFrom c (i + 1) (Suc j'))" by blast
      then show ?thesis by (simp add: pp Suc)
    qed
    show ?thesis
      using k(1,2,3,5,6) early
      by (intro exI [of _ "Suc k"]) (auto simp add: pp)
  qed
qed

lemma probePassed_trace [simp]: "probePassed (w\<lparr>trace := tr\<rparr>) t = probePassed w t"
  by (simp add: probePassed_def)

lemma blocks_Nil [simp]: "blocks cs [] = []" "blocks [] ks = []"
  by (simp_all add: blocks_def)

lemma blocks_Cons [simp]: "blocks (c # cs) (k # ks) = attempts c k @ blocks cs ks"
  by (simp add: blocks_def)

lemma checkNewContainersHealth_eq:
  assumes "args ''newContainers'' = Some (ArgContainers cs)"
  shows "checkNewContainersHealth args w =
           (fst (healthLoop 10 cs w), args, snd (healthLoop 10 cs w))"
  using assms by (simp add: checkNewContainersHealth_def Let_def split: prod.splits)

text \<open>
  C2, as amended. \<open>checkNewContainersHealth\<close> runs \<open>healthLoop\<close> with \<open>pollRetry\<close> 10,
  and for every budget \<open>pollRetry\<close> from 0 on and every list of containers,
  \<open>healthLoop\<close> probes the containers one after another: its events are, for the
  containers in order, the attempts 0, 1, ... on that container, each a sleep of
  \<open>10 * i\<close> seconds followed by one probe (attempt 0 sleeps 0 seconds). A container
  gets at least one and at most \<open>pollRetry + 1\<close> attempts (the attempts 0 to
  \<open>pollRetry\<close>). Without an error every container was probed; with an error the
  last container probed had all its \<open>pollRetry + 1\<close> attempts and none of them
  reported healthy, and the containers after it were not probed.
\<close>

theorem healthLoop_schedule:
  assumes "0 \<le> pollRetry" and "healthLoop pollRetry cs w = (r, w')"
  shows "\<exists>ks. length ks \<le> length cs \<and>
           list_all (\<lambda>k. 1 \<le> k \<and> int k \<le> pollRetry + 1) ks \<and>
           w' = w\<lparr>trace := trace w @ blocks cs ks\<rparr> \<and>
           (r = None \<longrightarrow> length ks = length cs) \<and>
           (r \<noteq> None \<longrightarrow> ks \<noteq> [] \<and> int (last ks) = pollRetry + 1 \<and>
              (\<forall>j<last ks. \<not> probePassed w
                 (trace w @ blocks cs (butlast ks) @ attempts (cs ! (length ks - 1)) (Suc j))))"
  using assms(2)
proof (induction cs arbitrary: w)
  case Nil
  then show ?case by (intro exI [of _ "[]"]) auto
next
  case (Cons c cs)
  obtain r0 w1 where p0: "pollLoop pollRetry 0 c w = (r0, w1)"
    by (cases "pollLoop pollRetry 0 c w")
  from pollLoop_attempts [OF p0 assms(1)] obtain k where
    k: "1 \<le> k" "int k \<le> pollRetry + 1"
       "w1 = w\<lparr>trace := trace w @ attempts c k\<rparr>"
       "\<forall>j<k - 1. \<not> probePassed w (trace w @ attempts c (Suc j))"
       "r0 = None \<longrightarrow> probePassed w (trace w1)"
       "r0 \<noteq> None \<longrightarrow> int k = pollRetry + 1 \<and> \<not> probePassed w (trace w1)"
    by (auto simp add: attempts_def)
  show ?case
  proof (cases r0)
    case (Some e)
    with Cons.prems p0 have res: "r = Some e" "w' = w1" by simp_all
    have "\<not> probePassed w (trace w @ attempts c (Suc j))" if "j < k" for j
    proof (cases "j < k - 1")
      case True
      with k(4) show ?thesis by blast
    next
      case False
      with that have "Suc j = k" by simp
      with k(3,6) Some show ?thesis by simp
    qed
    with k(1,2,3,6) Some res show ?thesis
      by (intro exI [of _ "[k]"]) auto
  next
    case None
    with Cons.prems p0 have rec: "healthLoop pollRetry cs w1 = (r, w')" by simp
    from Cons.IH [OF rec] obtain ks where
      ks: "length ks \<le> length cs"
          "list_all (\<lambda>k. 1 \<le> k \<and> int k \<le> pollRetry + 1) ks"
          "w' = w1\<lparr>trace := trace w1 @ blocks cs ks\<rparr>"
          "r = None \<longrightarrow> length ks = length cs"
          "r \<noteq> None \<longrightarrow> ks \<noteq> [] \<and> int (last ks) = pollRetry + 1 \<and>
              (\<forall>j<last ks. \<not> probePassed w1
                 (trace w1 @ blocks cs (butlast ks) @ attempts (cs ! (length ks - 1)) (Suc j)))"
      by blast
    have pp: "\<And>t. probePassed w1 t = probePassed w t" by (simp add: probePassed_def k(3))
    have fail: "ks \<noteq> [] \<and> int (last (k # ks)) = pollRetry + 1 \<and>
              (\<forall>j<last (k # ks). \<not> probePassed w
                 (trace w @ blocks (c # cs) (butlast (k # ks))
                    @ attempts ((c # cs) ! (length (k # ks) - 1)) (Suc j)))" if "r \<noteq> None"
    proof -
      from ks(5) that have ne: "ks \<noteq> []" and l: "int (last ks) = pollRetry + 1"
        and all: "\<forall>j<last ks. \<not> probePassed w1
                 (trace w1 @ blocks cs (butlast ks) @ attempts (cs ! (length ks - 1)) (Suc j))"
        by simp_all
      from ne have idx: "(c # cs) ! (length (k # ks) - 1) = cs ! (length ks - 1)"
        by (cases ks) simp_all
      from ne all show ?thesis
        by (simp add: l idx pp k(3))
    qed
    show ?thesis
    proof (intro exI [of _ "k # ks"] conjI impI)
      show "length (k # ks) \<le> length (c # cs)" using ks(1) by simp
      show "list_all (\<lambda>k. 1 \<le> k \<and> int k \<le> pollRetry + 1) (k # ks)"
        using k(1,2) ks(2) by simp
      show "w' = w\<lparr>trace := trace w @ blocks (c # cs) (k # ks)\<rparr>"
        using ks(3) k(3) by simp
      show "length (k # ks) = length (c # cs)" if "r = None"
        using ks(4) that by simp
      show "k # ks \<noteq> []" by simp
      show "int (last (k # ks)) = pollRetry + 1" if "r \<noteq> None"
        using fail [OF that] by blast
      show "\<forall>j<last (k # ks). \<not> probePassed w
                 (trace w @ blocks (c # cs) (butlast (k # ks))
                    @ attempts ((c # cs) ! (length (k # ks) - 1)) (Suc j))" if "r \<noteq> None"
        using fail [OF that] by blast
    qed
  qed
qed

theorem healthLoop_schedule_witness:
  "(0::int) \<le> 1 \<and>
   healthLoop 1 [\<lparr>ID = 0, Deployment = ''web'', State = Running\<rparr>] sickWorld
     = (Some (Error ''container health unstable <nil>''),
        sickWorld\<lparr>trace := [EvSleep 0, EvOk \<lparr>ID = 0, Deployment = ''web'', State = Running\<rparr>,
                             EvSleep 10, EvOk \<lparr>ID = 0, Deployment = ''web'', State = Running\<rparr>]\<rparr>) \<and>
   (\<exists>ks. length ks \<le> 1 \<and> int (last ks) = 2 \<and>
      [EvSleep 0, EvOk \<lparr>ID = 0, Deployment = ''web'', State = Running\<rparr>,
       EvSleep 10, EvOk \<lparr>ID = 0, Deployment = ''web'', State = Running\<rparr>]
      = blocks [\<lparr>ID = 0, Deployment = ''web'', State = Running\<rparr>] ks)"
proof -
  let ?c = "\<lparr>ID = 0, Deployment = ''web'', State = Running\<rparr>"
  let ?w' = "sickWorld\<lparr>trace := [EvSleep 0, EvOk ?c, EvSleep 10, EvOk ?c]\<rparr>"
  have z: "(0::int) \<le> 1" by simp
  have h: "healthLoop 1 [?c] sickWorld = (Some (Error ''container health unstable <nil>''), ?w')"
    by (simp add: pollLoop_step probePassed_def sickWorld_def emptyWorld_def errUnstable_def)
  from healthLoop_schedule [OF z h] obtain ks where
    ks: "length ks \<le> length [?c]" "?w' = sickWorld\<lparr>trace := trace sickWorld @ blocks [?c] ks\<rparr>"
        "int (last ks) = 1 + 1"
    by auto
  from ks(2) have "trace ?w' = trace (sickWorld\<lparr>trace := trace sickWorld @ blocks [?c] ks\<rparr>)"
    by simp
  then have "[EvSleep 0, EvOk ?c, EvSleep 10, EvOk ?c] = blocks [?c] ks"
    by (simp add: sickWorld_def emptyWorld_def)
  with ks(1,3) z h show ?thesis by auto
qed

text \<open>
  C2 as stated fails: a container that never reports healthy is probed 11 times
  under the budget of 10, after sleeps of 0, 10, ..., 100 seconds (550 seconds in all).
\<close>

theorem checkNewContainersHealth_eleven_probes_counterexample:
  "fst (checkNewContainersHealth sickArgs sickWorld) = Some (Error ''container health unstable <nil>'') \<and>
   length (filter isProbe (trace (snd (snd (checkNewContainersHealth sickArgs sickWorld))))) = 11 \<and>
   sleptSeconds (trace (snd (snd (checkNewContainersHealth sickArgs sickWorld)))) = 550"
  by (simp add: checkNewContainersHealth_def sickArgs_def pollLoop_step probePassed_def
      sickWorld_def emptyWorld_def errUnstable_def Let_def)


end
